theory Spec2Isabelle
  imports Main
begin

section \<open>The per-request transcription pipeline of \<^verbatim>\<open>stt_bot.py\<close>\<close>

text \<open>
  The bot has two coroutines: \<^verbatim>\<open>transcribe_voice\<close> (the recogniser stage, lines 38-79)
  and \<^verbatim>\<open>handle_media\<close> (the handler, lines 85-160). Both are straight-line code
  around calls to collaborators (the chat platform, the file system, pydub, the
  speech-recognition client). The embedding keeps the code's control flow and makes its
  effects explicit:
  \<^item> the storage is the set of paths that exist, and every call to a collaborator is
    appended to a trace when it is made, whether it then succeeds or raises;
  \<^item> what a collaborator answers is not decided by the bot, so it is an input: a
    \<open>scenario\<close> holds, for each call site of the source, the answer that call gets
    (no call site is inside a loop, so each is reached at most once per request);
  \<^item> a Python exception is a value of type \<open>exn\<close>, and each \<^verbatim>\<open>try\<close> statement is
    written out with its \<^verbatim>\<open>except\<close> and \<^verbatim>\<open>finally\<close> clauses;
  \<^item> a Python \<^verbatim>\<open>str\<close> is the list of its UTF-8 bytes, which keeps emptiness, equality
    and concatenation as they are in Python.
\<close>

subsection \<open>Exceptions\<close>

text \<open>
  The classes the source tells apart: \<^verbatim>\<open>sr.UnknownValueError\<close> and \<^verbatim>\<open>sr.RequestError\<close>
  (lines 62, 65), \<^verbatim>\<open>OSError\<close> (line 76), every other subclass of \<^verbatim>\<open>Exception\<close>
  (lines 68, 142), and what \<^verbatim>\<open>except Exception\<close> does not catch: a \<^verbatim>\<open>BaseException\<close>
  outside \<^verbatim>\<open>Exception\<close>, such as \<^verbatim>\<open>asyncio.CancelledError\<close>. The string is \<^verbatim>\<open>str(e)\<close>.
\<close>

datatype exn =
    UnknownValueError
  | RequestError string
  | OSError string
  | OtherException string
  | BaseExc string

fun is_Exception :: "exn \<Rightarrow> bool" where
  "is_Exception (BaseExc d) = False"
| "is_Exception e = True"

fun exn_str :: "exn \<Rightarrow> string" where
  "exn_str UnknownValueError = []"
| "exn_str (RequestError d) = d"
| "exn_str (OSError d) = d"
| "exn_str (OtherException d) = d"
| "exn_str (BaseExc d) = d"

subsection \<open>The texts of the source\<close>

text \<open>
  The string literals of the source that reach a collaborator, as UTF-8 bytes. Most are
  Russian; the comment of each gives its line and an English rendering.
\<close>

definition msg_file_not_found :: string where
  \<comment> \<open>line 45, the text returned when the file is missing: "[Error: internal error, file not found]"\<close>
  "msg_file_not_found =
     [CHR 0x5B, CHR 0xD0, CHR 0x9E, CHR 0xD1, CHR 0x88, CHR 0xD0, CHR 0xB8, CHR 0xD0, CHR 0xB1,
      CHR 0xD0, CHR 0xBA, CHR 0xD0, CHR 0xB0, CHR 0x3A, CHR 0x20, CHR 0xD0, CHR 0x92, CHR 0xD0,
      CHR 0xBD, CHR 0xD1, CHR 0x83, CHR 0xD1, CHR 0x82, CHR 0xD1, CHR 0x80, CHR 0xD0, CHR 0xB5,
      CHR 0xD0, CHR 0xBD, CHR 0xD0, CHR 0xBD, CHR 0xD1, CHR 0x8F, CHR 0xD1, CHR 0x8F, CHR 0x20,
      CHR 0xD0, CHR 0xBE, CHR 0xD1, CHR 0x88, CHR 0xD0, CHR 0xB8, CHR 0xD0, CHR 0xB1, CHR 0xD0,
      CHR 0xBA, CHR 0xD0, CHR 0xB0, CHR 0x2C, CHR 0x20, CHR 0xD1, CHR 0x84, CHR 0xD0, CHR 0xB0,
      CHR 0xD0, CHR 0xB9, CHR 0xD0, CHR 0xBB, CHR 0x20, CHR 0xD0, CHR 0xBD, CHR 0xD0, CHR 0xB5,
      CHR 0x20, CHR 0xD0, CHR 0xBD, CHR 0xD0, CHR 0xB0, CHR 0xD0, CHR 0xB9, CHR 0xD0, CHR 0xB4,
      CHR 0xD0, CHR 0xB5, CHR 0xD0, CHR 0xBD, CHR 0x5D]"

definition log_start_prefix :: string where
  \<comment> \<open>line 47: "Starting recognition of file: "\<close>
  "log_start_prefix =
     [CHR 0xD0, CHR 0x9D, CHR 0xD0, CHR 0xB0, CHR 0xD1, CHR 0x87, CHR 0xD0, CHR 0xB8, CHR 0xD0,
      CHR 0xBD, CHR 0xD0, CHR 0xB0, CHR 0xD1, CHR 0x8E, CHR 0x20, CHR 0xD1, CHR 0x80, CHR 0xD0,
      CHR 0xB0, CHR 0xD1, CHR 0x81, CHR 0xD0, CHR 0xBF, CHR 0xD0, CHR 0xBE, CHR 0xD0, CHR 0xB7,
      CHR 0xD0, CHR 0xBD, CHR 0xD0, CHR 0xB0, CHR 0xD0, CHR 0xB2, CHR 0xD0, CHR 0xB0, CHR 0xD0,
      CHR 0xBD, CHR 0xD0, CHR 0xB8, CHR 0xD0, CHR 0xB5, CHR 0x20, CHR 0xD1, CHR 0x84, CHR 0xD0,
      CHR 0xB0, CHR 0xD0, CHR 0xB9, CHR 0xD0, CHR 0xBB, CHR 0xD0, CHR 0xB0, CHR 0x3A, CHR 0x20]"

definition log_success_prefix :: string where
  \<comment> \<open>line 60: "Successfully recognised: " followed by an apostrophe\<close>
  "log_success_prefix =
     [CHR 0xD0, CHR 0xA3, CHR 0xD1, CHR 0x81, CHR 0xD0, CHR 0xBF, CHR 0xD0, CHR 0xB5, CHR 0xD1,
      CHR 0x88, CHR 0xD0, CHR 0xBD, CHR 0xD0, CHR 0xBE, CHR 0x20, CHR 0xD1, CHR 0x80, CHR 0xD0,
      CHR 0xB0, CHR 0xD1, CHR 0x81, CHR 0xD0, CHR 0xBF, CHR 0xD0, CHR 0xBE, CHR 0xD0, CHR 0xB7,
      CHR 0xD0, CHR 0xBD, CHR 0xD0, CHR 0xB0, CHR 0xD0, CHR 0xBD, CHR 0xD0, CHR 0xBE, CHR 0x3A,
      CHR 0x20, CHR 0x27]"

definition log_unknown_value :: string where
  \<comment> \<open>line 63: "Google Speech Recognition could not recognise the speech"\<close>
  "log_unknown_value =
     ''Google Speech Recognition '' @
     [CHR 0xD0, CHR 0xBD, CHR 0xD0, CHR 0xB5, CHR 0x20, CHR 0xD1, CHR 0x81, CHR 0xD0, CHR 0xBC,
      CHR 0xD0, CHR 0xBE, CHR 0xD0, CHR 0xB3, CHR 0xD0, CHR 0xBB, CHR 0xD0, CHR 0xB0, CHR 0x20,
      CHR 0xD1, CHR 0x80, CHR 0xD0, CHR 0xB0, CHR 0xD1, CHR 0x81, CHR 0xD0, CHR 0xBF, CHR 0xD0,
      CHR 0xBE, CHR 0xD0, CHR 0xB7, CHR 0xD0, CHR 0xBD, CHR 0xD0, CHR 0xB0, CHR 0xD1, CHR 0x82,
      CHR 0xD1, CHR 0x8C, CHR 0x20, CHR 0xD1, CHR 0x80, CHR 0xD0, CHR 0xB5, CHR 0xD1, CHR 0x87,
      CHR 0xD1, CHR 0x8C]"

definition msg_no_speech :: string where
  \<comment> \<open>line 64: "[Speech not recognised]"\<close>
  "msg_no_speech =
     [CHR 0x5B, CHR 0xD0, CHR 0xA0, CHR 0xD0, CHR 0xB5, CHR 0xD1, CHR 0x87, CHR 0xD1, CHR 0x8C,
      CHR 0x20, CHR 0xD0, CHR 0xBD, CHR 0xD0, CHR 0xB5, CHR 0x20, CHR 0xD1, CHR 0x80, CHR 0xD0,
      CHR 0xB0, CHR 0xD1, CHR 0x81, CHR 0xD0, CHR 0xBF, CHR 0xD0, CHR 0xBE, CHR 0xD0, CHR 0xB7,
      CHR 0xD0, CHR 0xBD, CHR 0xD0, CHR 0xB0, CHR 0xD0, CHR 0xBD, CHR 0xD0, CHR 0xB0, CHR 0x5D]"

definition log_request_error_prefix :: string where
  \<comment> \<open>line 66: "Error requesting the Google Speech Recognition service: "\<close>
  "log_request_error_prefix =
     [CHR 0xD0, CHR 0x9E, CHR 0xD1, CHR 0x88, CHR 0xD0, CHR 0xB8, CHR 0xD0, CHR 0xB1, CHR 0xD0,
      CHR 0xBA, CHR 0xD0, CHR 0xB0, CHR 0x20, CHR 0xD0, CHR 0xB7, CHR 0xD0, CHR 0xB0, CHR 0xD0,
      CHR 0xBF, CHR 0xD1, CHR 0x80, CHR 0xD0, CHR 0xBE, CHR 0xD1, CHR 0x81, CHR 0xD0, CHR 0xB0,
      CHR 0x20, CHR 0xD0, CHR 0xBA, CHR 0x20, CHR 0xD1, CHR 0x81, CHR 0xD0, CHR 0xB5, CHR 0xD1,
      CHR 0x80, CHR 0xD0, CHR 0xB2, CHR 0xD0, CHR 0xB8, CHR 0xD1, CHR 0x81, CHR 0xD1,
      CHR 0x83] @
     '' Google Speech Recognition: ''"

definition msg_service_error_prefix :: string where
  \<comment> \<open>line 67: "[Recognition service error: "\<close>
  "msg_service_error_prefix =
     [CHR 0x5B, CHR 0xD0, CHR 0x9E, CHR 0xD1, CHR 0x88, CHR 0xD0, CHR 0xB8, CHR 0xD0, CHR 0xB1,
      CHR 0xD0, CHR 0xBA, CHR 0xD0, CHR 0xB0, CHR 0x20, CHR 0xD1, CHR 0x81, CHR 0xD0, CHR 0xB5,
      CHR 0xD1, CHR 0x80, CHR 0xD0, CHR 0xB2, CHR 0xD0, CHR 0xB8, CHR 0xD1, CHR 0x81, CHR 0xD0,
      CHR 0xB0, CHR 0x20, CHR 0xD1, CHR 0x80, CHR 0xD0, CHR 0xB0, CHR 0xD1, CHR 0x81, CHR 0xD0,
      CHR 0xBF, CHR 0xD0, CHR 0xBE, CHR 0xD0, CHR 0xB7, CHR 0xD0, CHR 0xBD, CHR 0xD0, CHR 0xB0,
      CHR 0xD0, CHR 0xB2, CHR 0xD0, CHR 0xB0, CHR 0xD0, CHR 0xBD, CHR 0xD0, CHR 0xB8, CHR 0xD1,
      CHR 0x8F, CHR 0x3A, CHR 0x20]"

definition log_unexpected_prefix :: string where
  \<comment> \<open>line 69: "An unexpected error occurred while processing the audio: "\<close>
  "log_unexpected_prefix =
     [CHR 0xD0, CHR 0x9F, CHR 0xD1, CHR 0x80, CHR 0xD0, CHR 0xBE, CHR 0xD0, CHR 0xB8, CHR 0xD0,
      CHR 0xB7, CHR 0xD0, CHR 0xBE, CHR 0xD1, CHR 0x88, CHR 0xD0, CHR 0xBB, CHR 0xD0, CHR 0xB0,
      CHR 0x20, CHR 0xD0, CHR 0xBD, CHR 0xD0, CHR 0xB5, CHR 0xD0, CHR 0xBF, CHR 0xD1, CHR 0x80,
      CHR 0xD0, CHR 0xB5, CHR 0xD0, CHR 0xB4, CHR 0xD0, CHR 0xB2, CHR 0xD0, CHR 0xB8, CHR 0xD0,
      CHR 0xB4, CHR 0xD0, CHR 0xB5, CHR 0xD0, CHR 0xBD, CHR 0xD0, CHR 0xBD, CHR 0xD0, CHR 0xB0,
      CHR 0xD1, CHR 0x8F, CHR 0x20, CHR 0xD0, CHR 0xBE, CHR 0xD1, CHR 0x88, CHR 0xD0, CHR 0xB8,
      CHR 0xD0, CHR 0xB1, CHR 0xD0, CHR 0xBA, CHR 0xD0, CHR 0xB0, CHR 0x20, CHR 0xD0, CHR 0xBF,
      CHR 0xD1, CHR 0x80, CHR 0xD0, CHR 0xB8, CHR 0x20, CHR 0xD0, CHR 0xBE, CHR 0xD0, CHR 0xB1,
      CHR 0xD1, CHR 0x80, CHR 0xD0, CHR 0xB0, CHR 0xD0, CHR 0xB1, CHR 0xD0, CHR 0xBE, CHR 0xD1,
      CHR 0x82, CHR 0xD0, CHR 0xBA, CHR 0xD0, CHR 0xB5, CHR 0x20, CHR 0xD0, CHR 0xB0, CHR 0xD1,
      CHR 0x83, CHR 0xD0, CHR 0xB4, CHR 0xD0, CHR 0xB8, CHR 0xD0, CHR 0xBE, CHR 0x3A, CHR 0x20]"

definition msg_audio_error :: string where
  \<comment> \<open>line 70: "[Audio processing error]"\<close>
  "msg_audio_error =
     [CHR 0x5B, CHR 0xD0, CHR 0x9E, CHR 0xD1, CHR 0x88, CHR 0xD0, CHR 0xB8, CHR 0xD0, CHR 0xB1,
      CHR 0xD0, CHR 0xBA, CHR 0xD0, CHR 0xB0, CHR 0x20, CHR 0xD0, CHR 0xBE, CHR 0xD0, CHR 0xB1,
      CHR 0xD1, CHR 0x80, CHR 0xD0, CHR 0xB0, CHR 0xD0, CHR 0xB1, CHR 0xD0, CHR 0xBE, CHR 0xD1,
      CHR 0x82, CHR 0xD0, CHR 0xBA, CHR 0xD0, CHR 0xB8, CHR 0x20, CHR 0xD0, CHR 0xB0, CHR 0xD1,
      CHR 0x83, CHR 0xD0, CHR 0xB4, CHR 0xD0, CHR 0xB8, CHR 0xD0, CHR 0xBE, CHR 0x5D]"

definition log_removed_prefix :: string where
  \<comment> \<open>line 75: "Temporary file removed: "\<close>
  "log_removed_prefix =
     [CHR 0xD0, CHR 0x92, CHR 0xD1, CHR 0x80, CHR 0xD0, CHR 0xB5, CHR 0xD0, CHR 0xBC, CHR 0xD0,
      CHR 0xB5, CHR 0xD0, CHR 0xBD, CHR 0xD0, CHR 0xBD, CHR 0xD1, CHR 0x8B, CHR 0xD0, CHR 0xB9,
      CHR 0x20, CHR 0xD1, CHR 0x84, CHR 0xD0, CHR 0xB0, CHR 0xD0, CHR 0xB9, CHR 0xD0, CHR 0xBB,
      CHR 0x20, CHR 0xD1, CHR 0x83, CHR 0xD0, CHR 0xB4, CHR 0xD0, CHR 0xB0, CHR 0xD0, CHR 0xBB,
      CHR 0xD0, CHR 0xB5, CHR 0xD0, CHR 0xBD, CHR 0x3A, CHR 0x20]"

definition log_remove_failed_prefix :: string where
  \<comment> \<open>line 77: "Could not remove temporary file "\<close>
  "log_remove_failed_prefix =
     [CHR 0xD0, CHR 0x9D, CHR 0xD0, CHR 0xB5, CHR 0x20, CHR 0xD1, CHR 0x83, CHR 0xD0, CHR 0xB4,
      CHR 0xD0, CHR 0xB0, CHR 0xD0, CHR 0xBB, CHR 0xD0, CHR 0xBE, CHR 0xD1, CHR 0x81, CHR 0xD1,
      CHR 0x8C, CHR 0x20, CHR 0xD1, CHR 0x83, CHR 0xD0, CHR 0xB4, CHR 0xD0, CHR 0xB0, CHR 0xD0,
      CHR 0xBB, CHR 0xD0, CHR 0xB8, CHR 0xD1, CHR 0x82, CHR 0xD1, CHR 0x8C, CHR 0x20, CHR 0xD0,
      CHR 0xB2, CHR 0xD1, CHR 0x80, CHR 0xD0, CHR 0xB5, CHR 0xD0, CHR 0xBC, CHR 0xD0, CHR 0xB5,
      CHR 0xD0, CHR 0xBD, CHR 0xD0, CHR 0xBD, CHR 0xD1, CHR 0x8B, CHR 0xD0, CHR 0xB9, CHR 0x20,
      CHR 0xD1, CHR 0x84, CHR 0xD0, CHR 0xB0, CHR 0xD0, CHR 0xB9, CHR 0xD0, CHR 0xBB, CHR 0x20]"

definition msg_ack :: string where
  \<comment> \<open>line 103: studio-microphone emoji, then "Got it, starting transcription..."\<close>
  "msg_ack =
     [CHR 0xF0, CHR 0x9F, CHR 0x8E, CHR 0x99, CHR 0xEF, CHR 0xB8, CHR 0x8F, CHR 0x20, CHR 0xD0,
      CHR 0x9F, CHR 0xD0, CHR 0xBE, CHR 0xD0, CHR 0xBB, CHR 0xD1, CHR 0x83, CHR 0xD1, CHR 0x87,
      CHR 0xD0, CHR 0xB8, CHR 0xD0, CHR 0xBB, CHR 0x2C, CHR 0x20, CHR 0xD0, CHR 0xBD, CHR 0xD0,
      CHR 0xB0, CHR 0xD1, CHR 0x87, CHR 0xD0, CHR 0xB8, CHR 0xD0, CHR 0xBD, CHR 0xD0, CHR 0xB0,
      CHR 0xD1, CHR 0x8E, CHR 0x20, CHR 0xD1, CHR 0x80, CHR 0xD0, CHR 0xB0, CHR 0xD1, CHR 0x81,
      CHR 0xD1, CHR 0x88, CHR 0xD0, CHR 0xB8, CHR 0xD1, CHR 0x84, CHR 0xD1, CHR 0x80, CHR 0xD0,
      CHR 0xBE, CHR 0xD0, CHR 0xB2, CHR 0xD0, CHR 0xBA, CHR 0xD1, CHR 0x83, CHR 0x2E, CHR 0x2E,
      CHR 0x2E]"

definition log_downloaded_prefix :: string where
  \<comment> \<open>line 130: "File downloaded: "\<close>
  "log_downloaded_prefix =
     [CHR 0xD0, CHR 0xA4, CHR 0xD0, CHR 0xB0, CHR 0xD0, CHR 0xB9, CHR 0xD0, CHR 0xBB, CHR 0x20,
      CHR 0xD1, CHR 0x81, CHR 0xD0, CHR 0xBA, CHR 0xD0, CHR 0xB0, CHR 0xD1, CHR 0x87, CHR 0xD0,
      CHR 0xB0, CHR 0xD0, CHR 0xBD, CHR 0x3A, CHR 0x20]"

definition msg_converting :: string where
  \<comment> \<open>line 133: hourglass emoji, then "Converting audio..."\<close>
  "msg_converting =
     [CHR 0xE2, CHR 0x8F, CHR 0xB3, CHR 0x20, CHR 0xD0, CHR 0x9A, CHR 0xD0, CHR 0xBE, CHR 0xD0,
      CHR 0xBD, CHR 0xD0, CHR 0xB2, CHR 0xD0, CHR 0xB5, CHR 0xD1, CHR 0x80, CHR 0xD1, CHR 0x82,
      CHR 0xD0, CHR 0xB8, CHR 0xD1, CHR 0x80, CHR 0xD1, CHR 0x83, CHR 0xD1, CHR 0x8E, CHR 0x20,
      CHR 0xD0, CHR 0xB0, CHR 0xD1, CHR 0x83, CHR 0xD0, CHR 0xB4, CHR 0xD0, CHR 0xB8, CHR 0xD0,
      CHR 0xBE, CHR 0x2E, CHR 0x2E, CHR 0x2E]"

definition log_converted_prefix :: string where
  \<comment> \<open>line 140: "File converted to "\<close>
  "log_converted_prefix =
     [CHR 0xD0, CHR 0xA4, CHR 0xD0, CHR 0xB0, CHR 0xD0, CHR 0xB9, CHR 0xD0, CHR 0xBB, CHR 0x20,
      CHR 0xD1, CHR 0x81, CHR 0xD0, CHR 0xBA, CHR 0xD0, CHR 0xBE, CHR 0xD0, CHR 0xBD, CHR 0xD0,
      CHR 0xB2, CHR 0xD0, CHR 0xB5, CHR 0xD1, CHR 0x80, CHR 0xD1, CHR 0x82, CHR 0xD0, CHR 0xB8,
      CHR 0xD1, CHR 0x80, CHR 0xD0, CHR 0xBE, CHR 0xD0, CHR 0xB2, CHR 0xD0, CHR 0xB0, CHR 0xD0,
      CHR 0xBD, CHR 0x20, CHR 0xD0, CHR 0xB2, CHR 0x20]"

definition log_stage_error_prefix :: string where
  \<comment> \<open>line 143: "Error at the download or conversion stage: "\<close>
  "log_stage_error_prefix =
     [CHR 0xD0, CHR 0x9E, CHR 0xD1, CHR 0x88, CHR 0xD0, CHR 0xB8, CHR 0xD0, CHR 0xB1, CHR 0xD0,
      CHR 0xBA, CHR 0xD0, CHR 0xB0, CHR 0x20, CHR 0xD0, CHR 0xBD, CHR 0xD0, CHR 0xB0, CHR 0x20,
      CHR 0xD1, CHR 0x8D, CHR 0xD1, CHR 0x82, CHR 0xD0, CHR 0xB0, CHR 0xD0, CHR 0xBF, CHR 0xD0,
      CHR 0xB5, CHR 0x20, CHR 0xD1, CHR 0x81, CHR 0xD0, CHR 0xBA, CHR 0xD0, CHR 0xB0, CHR 0xD1,
      CHR 0x87, CHR 0xD0, CHR 0xB8, CHR 0xD0, CHR 0xB2, CHR 0xD0, CHR 0xB0, CHR 0xD0, CHR 0xBD,
      CHR 0xD0, CHR 0xB8, CHR 0xD1, CHR 0x8F, CHR 0x20, CHR 0xD0, CHR 0xB8, CHR 0xD0, CHR 0xBB,
      CHR 0xD0, CHR 0xB8, CHR 0x20, CHR 0xD0, CHR 0xBA, CHR 0xD0, CHR 0xBE, CHR 0xD0, CHR 0xBD,
      CHR 0xD0, CHR 0xB2, CHR 0xD0, CHR 0xB5, CHR 0xD1, CHR 0x80, CHR 0xD1, CHR 0x82, CHR 0xD0,
      CHR 0xB0, CHR 0xD1, CHR 0x86, CHR 0xD0, CHR 0xB8, CHR 0xD0, CHR 0xB8, CHR 0x3A, CHR 0x20]"

definition msg_stage_failed :: string where
  \<comment> \<open>line 144: cross-mark emoji, then "An error occurred while processing the file."\<close>
  "msg_stage_failed =
     [CHR 0xE2, CHR 0x9D, CHR 0x8C, CHR 0x20, CHR 0xD0, CHR 0x9F, CHR 0xD1, CHR 0x80, CHR 0xD0,
      CHR 0xBE, CHR 0xD0, CHR 0xB8, CHR 0xD0, CHR 0xB7, CHR 0xD0, CHR 0xBE, CHR 0xD1, CHR 0x88,
      CHR 0xD0, CHR 0xBB, CHR 0xD0, CHR 0xB0, CHR 0x20, CHR 0xD0, CHR 0xBE, CHR 0xD1, CHR 0x88,
      CHR 0xD0, CHR 0xB8, CHR 0xD0, CHR 0xB1, CHR 0xD0, CHR 0xBA, CHR 0xD0, CHR 0xB0, CHR 0x20,
      CHR 0xD0, CHR 0xBF, CHR 0xD1, CHR 0x80, CHR 0xD0, CHR 0xB8, CHR 0x20, CHR 0xD0, CHR 0xBE,
      CHR 0xD0, CHR 0xB1, CHR 0xD1, CHR 0x80, CHR 0xD0, CHR 0xB0, CHR 0xD0, CHR 0xB1, CHR 0xD0,
      CHR 0xBE, CHR 0xD1, CHR 0x82, CHR 0xD0, CHR 0xBA, CHR 0xD0, CHR 0xB5, CHR 0x20, CHR 0xD1,
      CHR 0x84, CHR 0xD0, CHR 0xB0, CHR 0xD0, CHR 0xB9, CHR 0xD0, CHR 0xBB, CHR 0xD0, CHR 0xB0,
      CHR 0x2E]"

definition msg_recognizing :: string where
  \<comment> \<open>line 152: brain emoji, then "Recognising speech..."\<close>
  "msg_recognizing =
     [CHR 0xF0, CHR 0x9F, CHR 0xA7, CHR 0xA0, CHR 0x20, CHR 0xD0, CHR 0xA0, CHR 0xD0, CHR 0xB0,
      CHR 0xD1, CHR 0x81, CHR 0xD0, CHR 0xBF, CHR 0xD0, CHR 0xBE, CHR 0xD0, CHR 0xB7, CHR 0xD0,
      CHR 0xBD, CHR 0xD0, CHR 0xB0, CHR 0xD1, CHR 0x8E, CHR 0x20, CHR 0xD1, CHR 0x80, CHR 0xD0,
      CHR 0xB5, CHR 0xD1, CHR 0x87, CHR 0xD1, CHR 0x8C, CHR 0x2E, CHR 0x2E, CHR 0x2E]"

definition msg_no_result :: string where
  \<comment> \<open>line 160: "Could not obtain a recognition result."\<close>
  "msg_no_result =
     [CHR 0xD0, CHR 0x9D, CHR 0xD0, CHR 0xB5, CHR 0x20, CHR 0xD1, CHR 0x83, CHR 0xD0, CHR 0xB4,
      CHR 0xD0, CHR 0xB0, CHR 0xD0, CHR 0xBB, CHR 0xD0, CHR 0xBE, CHR 0xD1, CHR 0x81, CHR 0xD1,
      CHR 0x8C, CHR 0x20, CHR 0xD0, CHR 0xBF, CHR 0xD0, CHR 0xBE, CHR 0xD0, CHR 0xBB, CHR 0xD1,
      CHR 0x83, CHR 0xD1, CHR 0x87, CHR 0xD0, CHR 0xB8, CHR 0xD1, CHR 0x82, CHR 0xD1, CHR 0x8C,
      CHR 0x20, CHR 0xD1, CHR 0x80, CHR 0xD0, CHR 0xB5, CHR 0xD0, CHR 0xB7, CHR 0xD1, CHR 0x83,
      CHR 0xD0, CHR 0xBB, CHR 0xD1, CHR 0x8C, CHR 0xD1, CHR 0x82, CHR 0xD0, CHR 0xB0, CHR 0xD1,
      CHR 0x82, CHR 0x20, CHR 0xD1, CHR 0x80, CHR 0xD0, CHR 0xB0, CHR 0xD1, CHR 0x81, CHR 0xD0,
      CHR 0xBF, CHR 0xD0, CHR 0xBE, CHR 0xD0, CHR 0xB7, CHR 0xD0, CHR 0xBD, CHR 0xD0, CHR 0xB0,
      CHR 0xD0, CHR 0xB2, CHR 0xD0, CHR 0xB0, CHR 0xD0, CHR 0xBD, CHR 0xD0, CHR 0xB8, CHR 0xD1,
      CHR 0x8F, CHR 0x2E]"

subsection \<open>Storage keys (lines 112-126)\<close>

text \<open>
  \<^verbatim>\<open>str(n)\<close> of a Python integer: its decimal digits, with a minus sign when negative.
\<close>

definition digit_char :: "nat \<Rightarrow> char" where
  "digit_char d = ''0123456789'' ! d"

fun digits :: "nat \<Rightarrow> string" where
  "digits n = (if n < 10 then [digit_char n] else digits (n div 10) @ [digit_char (n mod 10)])"

declare digits.simps [simp del]

definition str_int :: "int \<Rightarrow> string" where
  "str_int i = (if i < 0 then CHR ''-'' # digits (nat (- i)) else digits (nat i))"

text \<open>\<^verbatim>\<open>os.path.join(a, b)\<close> as \<^verbatim>\<open>posixpath\<close> defines it for two arguments.\<close>

definition path_join :: "string \<Rightarrow> string \<Rightarrow> string" where
  "path_join a b =
     (if b \<noteq> [] \<and> hd b = CHR ''/'' then b
      else if a = [] \<or> last a = CHR ''/'' then a @ b
      else a @ ''/'' @ b)"

definition TEMP_MEDIA_DIR :: string where
  "TEMP_MEDIA_DIR = ''temp_media''"

datatype media_kind = Voice | VideoNote

text \<open>
  The two branches of lines 112-126 differ in the prefix, the extension of the source
  file, the format hint and the chat action; the kind selects them.
\<close>

fun kind_prefix :: "media_kind \<Rightarrow> string" where
  "kind_prefix Voice = ''voice_''"
| "kind_prefix VideoNote = ''vnote_''"

fun source_ext :: "media_kind \<Rightarrow> string" where
  "source_ext Voice = ''.oga''"
| "source_ext VideoNote = ''.mp4''"

fun source_format :: "media_kind \<Rightarrow> string" where
  "source_format Voice = ''ogg''"
| "source_format VideoNote = ''mp4''"

definition base_name :: "media_kind \<Rightarrow> int \<Rightarrow> int \<Rightarrow> string" where
  \<comment> \<open>lines 115, 123: the prefix, the requester id, an underscore, \<^verbatim>\<open>int(time.time())\<close>\<close>
  "base_name k user_id now = kind_prefix k @ str_int user_id @ ''_'' @ str_int now"

definition original_path :: "media_kind \<Rightarrow> int \<Rightarrow> int \<Rightarrow> string" where
  \<comment> \<open>lines 116, 124\<close>
  "original_path k user_id now = path_join TEMP_MEDIA_DIR (base_name k user_id now @ source_ext k)"

definition wav_path :: "media_kind \<Rightarrow> int \<Rightarrow> int \<Rightarrow> string" where
  \<comment> \<open>lines 117, 125\<close>
  "wav_path k user_id now = path_join TEMP_MEDIA_DIR (base_name k user_id now @ ''.wav'')"

subsection \<open>Storage, trace and collaborators\<close>

datatype level = DEBUG | INFO | WARNING | ERROR

datatype chat_action = RECORD_VOICE | RECORD_VIDEO

fun chat_action_of :: "media_kind \<Rightarrow> chat_action" where
  "chat_action_of Voice = RECORD_VOICE"
| "chat_action_of VideoNote = RECORD_VIDEO"

text \<open>
  One event per call to a collaborator, with the arguments of the call. \<open>EditText\<close>
  carries the text and the \<^verbatim>\<open>parse_mode\<close> argument when one is given.
\<close>

datatype event =
    Log level string
  | ReplyText string
  | EditText string "string option"
  | MakeDirs string
  | SendChatAction int chat_action
  | GetFile media_kind
  | DownloadToDrive string
  | ConvertSync string string string
  | Recognize string string
  | Remove string

record world =
  files :: "string set"
  trace :: "event list"

definition emit :: "event \<Rightarrow> world \<Rightarrow> world" where
  "emit ev w = w\<lparr>trace := trace w @ [ev]\<rparr>"

definition logger :: "level \<Rightarrow> string \<Rightarrow> world \<Rightarrow> world" where
  "logger l s w = emit (Log l s) w"

definition path_exists :: "string \<Rightarrow> world \<Rightarrow> bool" where
  "path_exists p w = (p \<in> files w)"

definition add_file :: "string \<Rightarrow> world \<Rightarrow> world" where
  "add_file p w = w\<lparr>files := insert p (files w)\<rparr>"

text \<open>
  The answers of the collaborators to one request, one field per call site (the line of
  the call is given). \<open>None\<close> is a call that returns normally. A download or a
  conversion that raises may or may not leave its output file behind;
  \<^verbatim>\<open>os.remove\<close> raises only \<^verbatim>\<open>OSError\<close>, so its answer is the text of the error.
\<close>

record scenario =
  reply_text_res :: "exn option"            \<comment> \<open>line 103\<close>
  makedirs_res :: "exn option"              \<comment> \<open>line 110\<close>
  send_chat_action_res :: "exn option"      \<comment> \<open>lines 113, 121\<close>
  get_file_res :: "exn option"              \<comment> \<open>lines 114, 122\<close>
  time_now :: int                           \<comment> \<open>\<^verbatim>\<open>int(time.time())\<close>, lines 115, 123\<close>
  download_res :: "exn option"              \<comment> \<open>line 129\<close>
  download_leaves_file :: bool
  edit_converting_res :: "exn option"       \<comment> \<open>line 133\<close>
  convert_res :: "exn option"               \<comment> \<open>line 139\<close>
  convert_leaves_file :: bool
  edit_failure_res :: "exn option"          \<comment> \<open>line 144\<close>
  remove_source_res :: "string option"      \<comment> \<open>line 149\<close>
  edit_recognizing_res :: "exn option"      \<comment> \<open>line 152\<close>
  recognize_res :: "exn + string"           \<comment> \<open>line 59\<close>
  remove_wav_res :: "string option"         \<comment> \<open>line 74\<close>
  edit_final_res :: "exn option"            \<comment> \<open>lines 157, 160\<close>

text \<open>
  \<^verbatim>\<open>os.remove(p)\<close>: raises when the file does not exist; otherwise the scenario decides
  whether the removal succeeds. A removal that raises leaves the file where it is.
\<close>

definition os_remove :: "string option \<Rightarrow> string \<Rightarrow> world \<Rightarrow> string option \<times> world" where
  "os_remove res p w =
     (let w1 = emit (Remove p) w in
      if \<not> path_exists p w1
      then (Some (''[Errno 2] No such file or directory: '' @ [CHR 0x27] @ p @ [CHR 0x27]), w1)
      else (case res of
              None \<Rightarrow> (None, w1\<lparr>files := files w1 - {p}\<rparr>)
            | Some d \<Rightarrow> (Some d, w1)))"

subsection \<open>The recogniser stage: \<^verbatim>\<open>transcribe_voice\<close> (lines 38-79)\<close>

text \<open>
  The \<^verbatim>\<open>try\<close> of lines 51-70 with its three \<^verbatim>\<open>except\<close> clauses, in the order of the
  source. The result is the value of the variable \<^verbatim>\<open>text\<close> (\<^verbatim>\<open>Optional[str]\<close>), or the
  exception that no clause catches. The answer of the scenario is what
  \<^verbatim>\<open>await asyncio.to_thread(recognize_sync)\<close> returns or raises; the constructor of
  line 48 and the calls to the logger are taken not to raise.
\<close>

fun recognize_try :: "exn + string \<Rightarrow> world \<Rightarrow> (exn + string option) \<times> world" where
  "recognize_try (Inr t) w =
     (Inr (Some t), logger INFO (log_success_prefix @ t @ [CHR 0x27]) w)"
| "recognize_try (Inl UnknownValueError) w =
     (Inr (Some msg_no_speech), logger WARNING log_unknown_value w)"
| "recognize_try (Inl (RequestError d)) w =
     (Inr (Some (msg_service_error_prefix @ d @ '']'')),
      logger ERROR (log_request_error_prefix @ d) w)"
| "recognize_try (Inl e) w =
     (if is_Exception e
      then (Inr (Some msg_audio_error), logger ERROR (log_unexpected_prefix @ exn_str e) w)
      else (Inl e, w))"

text \<open>The \<^verbatim>\<open>finally\<close> of lines 71-77: the removal and its own \<^verbatim>\<open>except OSError\<close>.\<close>

definition remove_wav :: "scenario \<Rightarrow> string \<Rightarrow> world \<Rightarrow> world" where
  "remove_wav sc file_path w =
     (case os_remove (remove_wav_res sc) file_path w of
        (None, w1) \<Rightarrow> logger DEBUG (log_removed_prefix @ file_path) w1
      | (Some d, w1) \<Rightarrow> logger WARNING (log_remove_failed_prefix @ file_path @ '': '' @ d) w1)"

definition transcribe_voice ::
  "scenario \<Rightarrow> string \<Rightarrow> world \<Rightarrow> (exn + string option) \<times> world" where
  "transcribe_voice sc file_path w0 =
     (if \<not> path_exists file_path w0
      then (Inr (Some msg_file_not_found),
            logger ERROR (''File not found for transcription: '' @ file_path) w0)
      else
        (let w1 = logger INFO (log_start_prefix @ file_path) w0;
             w2 = emit (Recognize file_path ''ru-RU'') w1;
             (text, w3) = recognize_try (recognize_res sc) w2;
             w4 = remove_wav sc file_path w3
         in (text, w4)))"

subsection \<open>The handler: \<^verbatim>\<open>handle_media\<close> (lines 85-160)\<close>

text \<open>
  The fields of the inbound event that the handler reads. A media payload is its file
  identifier. The requester and the chat of an event that has a message are taken as
  present, as the chat platform delivers them.
\<close>

record message =
  voice :: "string option"
  video_note :: "string option"

record update =
  message :: "message option"
  effective_user_id :: int
  effective_chat_id :: int

text \<open>The two local variables that outlive the \<^verbatim>\<open>try\<close> statement (lines 105, 106).\<close>

record frame =
  temp_file_path :: "string option"
  original_media_path :: "string option"

datatype result = Returned | Raised exn

text \<open>
  The body of the \<^verbatim>\<open>try\<close> (lines 109-140). The kind is \<open>Voice\<close> when \<^verbatim>\<open>is_voice\<close> holds
  and \<open>VideoNote\<close> otherwise: line 99 has returned when neither holds. The first
  component is the exception that leaves the body, if any.
\<close>

definition try_body ::
  "scenario \<Rightarrow> media_kind \<Rightarrow> int \<Rightarrow> int \<Rightarrow> frame \<Rightarrow> world \<Rightarrow> exn option \<times> frame \<times> world" where
  "try_body sc k user_id chat_id fr w0 =
     (let w1 = emit (MakeDirs TEMP_MEDIA_DIR) w0 in
      case makedirs_res sc of Some e \<Rightarrow> (Some e, fr, w1) | None \<Rightarrow>
     (let w2 = emit (SendChatAction chat_id (chat_action_of k)) w1 in
      case send_chat_action_res sc of Some e \<Rightarrow> (Some e, fr, w2) | None \<Rightarrow>
     (let w3 = emit (GetFile k) w2 in
      case get_file_res sc of Some e \<Rightarrow> (Some e, fr, w3) | None \<Rightarrow>
     (let src = original_path k user_id (time_now sc);
          wav = wav_path k user_id (time_now sc);
          fr1 = fr\<lparr>temp_file_path := Some wav, original_media_path := Some src\<rparr>;
          w4 = emit (DownloadToDrive src) w3 in
      case download_res sc of
        Some e \<Rightarrow> (Some e, fr1, if download_leaves_file sc then add_file src w4 else w4)
      | None \<Rightarrow>
     (let w5 = logger INFO (log_downloaded_prefix @ src) (add_file src w4);
          w6 = emit (EditText msg_converting None) w5 in
      case edit_converting_res sc of Some e \<Rightarrow> (Some e, fr1, w6) | None \<Rightarrow>
     (let w7 = emit (ConvertSync src (source_format k) wav) w6 in
      case convert_res sc of
        Some e \<Rightarrow> (Some e, fr1, if convert_leaves_file sc then add_file wav w7 else w7)
      | None \<Rightarrow> (None, fr1, logger INFO (log_converted_prefix @ wav) (add_file wav w7))))))))"

text \<open>
  The \<^verbatim>\<open>except Exception\<close> clause (lines 142-145) and what is pending when the
  \<^verbatim>\<open>finally\<close> clause starts: falling through to line 151, the \<^verbatim>\<open>return\<close> of line 145,
  or an exception on its way out.
\<close>

datatype pending = Continue | Return | Raise exn

definition except_clause :: "scenario \<Rightarrow> exn option \<Rightarrow> world \<Rightarrow> pending \<times> world" where
  "except_clause sc r w =
     (case r of
        None \<Rightarrow> (Continue, w)
      | Some e \<Rightarrow>
          if is_Exception e
          then (let w1 = logger ERROR (log_stage_error_prefix @ exn_str e) w;
                    w2 = emit (EditText msg_stage_failed None) w1 in
                case edit_failure_res sc of
                  None \<Rightarrow> (Return, w2)
                | Some e2 \<Rightarrow> (Raise e2, w2))
          else (Raise e, w))"

text \<open>The \<^verbatim>\<open>finally\<close> clause (lines 146-149); an \<^verbatim>\<open>OSError\<close> of the removal leaves it.\<close>

definition finally_clause :: "scenario \<Rightarrow> frame \<Rightarrow> world \<Rightarrow> string option \<times> world" where
  "finally_clause sc fr w =
     (case original_media_path fr of
        None \<Rightarrow> (None, w)
      | Some p \<Rightarrow>
          if p \<noteq> [] \<and> path_exists p w then os_remove (remove_source_res sc) p w
          else (None, w))"

text \<open>
  Lines 151-160. \<^verbatim>\<open>if transcribed_text\<close> holds for a string that is not empty. Were
  \<^verbatim>\<open>temp_file_path\<close> still \<^verbatim>\<open>None\<close>, \<^verbatim>\<open>os.path.exists\<close> would raise a \<^verbatim>\<open>TypeError\<close>.
\<close>

definition truthy :: "string option \<Rightarrow> bool" where
  "truthy t = (case t of None \<Rightarrow> False | Some s \<Rightarrow> s \<noteq> [])"

definition final_edit :: "string option \<Rightarrow> event" where
  "final_edit transcribed_text =
     (if truthy transcribed_text
      then EditText ([CHR 0x0A, CHR 0x0A] @ the transcribed_text) (Some ''Markdown'')
      else EditText msg_no_result None)"

definition recognize_and_report :: "scenario \<Rightarrow> frame \<Rightarrow> world \<Rightarrow> result \<times> world" where
  "recognize_and_report sc fr w0 =
     (let w1 = emit (EditText msg_recognizing None) w0 in
      case edit_recognizing_res sc of Some e \<Rightarrow> (Raised e, w1) | None \<Rightarrow>
     (case temp_file_path fr of
        None \<Rightarrow>
          (Raised (OtherException
             ''stat: path should be string, bytes, os.PathLike or integer, not NoneType''), w1)
      | Some p \<Rightarrow>
         (case transcribe_voice sc p w1 of
            (Inl e, w2) \<Rightarrow> (Raised e, w2)
          | (Inr transcribed_text, w2) \<Rightarrow>
             (let w3 = emit (final_edit transcribed_text) w2 in
              case edit_final_res sc of Some e \<Rightarrow> (Raised e, w3) | None \<Rightarrow> (Returned, w3)))))"

definition handle_media :: "scenario \<Rightarrow> update \<Rightarrow> world \<Rightarrow> result \<times> world" where
  "handle_media sc upd w0 =
     (case message upd of
        None \<Rightarrow> (Returned, w0)
      | Some m \<Rightarrow>
         (let user_id = effective_user_id upd;
              chat_id = effective_chat_id upd;
              is_voice = (voice m \<noteq> None);
              is_video_note = (video_note m \<noteq> None) in
          if \<not> (is_voice \<or> is_video_note) then (Returned, w0)
          else
            (let w1 = emit (ReplyText msg_ack) w0 in
             case reply_text_res sc of Some e \<Rightarrow> (Raised e, w1) | None \<Rightarrow>
            (let fr0 = \<lparr>temp_file_path = None, original_media_path = None\<rparr>;
                 (r, fr1, w2) =
                    try_body sc (if is_voice then Voice else VideoNote) user_id chat_id fr0 w1;
                 (pend, w3) = except_clause sc r w2;
                 (fin, w4) = finally_clause sc fr1 w3
             in case fin of
                  Some d \<Rightarrow> (Raised (OSError d), w4)
                | None \<Rightarrow>
                   (case pend of
                      Raise e \<Rightarrow> (Raised e, w4)
                    | Return \<Rightarrow> (Returned, w4)
                    | Continue \<Rightarrow> recognize_and_report sc fr1 w4)))))"

subsection \<open>Reading the trace\<close>

text \<open>
  The events a call adds to the trace, and among them the calls to collaborators other
  than the logger.
\<close>

definition events_since :: "world \<Rightarrow> world \<Rightarrow> event list" where
  "events_since w w' = drop (length (trace w)) (trace w')"

fun is_call :: "event \<Rightarrow> bool" where
  "is_call (Log l s) = False"
| "is_call ev = True"

definition calls :: "event list \<Rightarrow> event list" where
  "calls evs = filter is_call evs"

text \<open>
  The status operations (the reply of line 103 and the edits of the status message), and
  among them a final report: the failure text of line 144, the fallback text of line 160,
  or a text of line 157, which starts with two newlines.
\<close>

fun is_status :: "event \<Rightarrow> bool" where
  "is_status (ReplyText t) = True"
| "is_status (EditText t pm) = True"
| "is_status ev = False"

definition status_events :: "event list \<Rightarrow> event list" where
  "status_events evs = filter is_status evs"

fun is_final_report :: "event \<Rightarrow> bool" where
  "is_final_report (EditText t pm) =
     (t = msg_stage_failed \<or> t = msg_no_result \<or> take 2 t = [CHR 0x0A, CHR 0x0A])"
| "is_final_report ev = False"

definition final_reports :: "event list \<Rightarrow> event list" where
  "final_reports evs = filter is_final_report evs"

subsection \<open>Requests and scenarios\<close>

text \<open>
  An accepted request is an event that passes lines 89 and 99; its kind selects the
  branch of lines 112-126.
\<close>

definition accepted :: "update \<Rightarrow> bool" where
  "accepted upd =
     (case message upd of
        None \<Rightarrow> False
      | Some m \<Rightarrow> voice m \<noteq> None \<or> video_note m \<noteq> None)"

definition kind_of :: "update \<Rightarrow> media_kind" where
  "kind_of upd =
     (case message upd of
        None \<Rightarrow> VideoNote
      | Some m \<Rightarrow> if voice m \<noteq> None then Voice else VideoNote)"

text \<open>
  Scenarios in which every status operation succeeds; in which no collaborator raises
  outside \<^verbatim>\<open>Exception\<close>; in which both hold and the source file can be removed; and
  in which every call up to the recognition succeeds.
\<close>

definition status_ok :: "scenario \<Rightarrow> bool" where
  "status_ok sc =
     (reply_text_res sc = None \<and> edit_converting_res sc = None \<and> edit_failure_res sc = None
      \<and> edit_recognizing_res sc = None \<and> edit_final_res sc = None)"

fun catchable :: "exn option \<Rightarrow> bool" where
  "catchable None = True"
| "catchable (Some e) = is_Exception e"

definition no_base_exception :: "scenario \<Rightarrow> bool" where
  "no_base_exception sc =
     (catchable (makedirs_res sc) \<and> catchable (send_chat_action_res sc)
      \<and> catchable (get_file_res sc) \<and> catchable (download_res sc)
      \<and> catchable (convert_res sc)
      \<and> (case recognize_res sc of Inl e \<Rightarrow> is_Exception e | Inr t \<Rightarrow> True))"

definition undisturbed :: "scenario \<Rightarrow> bool" where
  "undisturbed sc = (status_ok sc \<and> no_base_exception sc \<and> remove_source_res sc = None)"

definition stages_succeed :: "scenario \<Rightarrow> bool" where
  "stages_succeed sc =
     (reply_text_res sc = None \<and> makedirs_res sc = None \<and> send_chat_action_res sc = None
      \<and> get_file_res sc = None \<and> download_res sc = None \<and> edit_converting_res sc = None
      \<and> convert_res sc = None \<and> remove_source_res sc = None
      \<and> edit_recognizing_res sc = None)"

text \<open>
  When every call up to the removal of the source file succeeds, the handler reaches
  line 151 with the converted file on the storage and the source file removed.
\<close>

definition converted_world :: "scenario \<Rightarrow> update \<Rightarrow> world \<Rightarrow> world" where
  "converted_world sc upd w =
     w\<lparr>files :=
         insert (wav_path (kind_of upd) (effective_user_id upd) (time_now sc)) (files w)
           - {original_path (kind_of upd) (effective_user_id upd) (time_now sc)},
       trace := trace w @
         [ReplyText msg_ack, MakeDirs TEMP_MEDIA_DIR,
          SendChatAction (effective_chat_id upd) (chat_action_of (kind_of upd)),
          GetFile (kind_of upd),
          DownloadToDrive (original_path (kind_of upd) (effective_user_id upd) (time_now sc)),
          Log INFO (log_downloaded_prefix
            @ original_path (kind_of upd) (effective_user_id upd) (time_now sc)),
          EditText msg_converting None,
          ConvertSync (original_path (kind_of upd) (effective_user_id upd) (time_now sc))
            (source_format (kind_of upd))
            (wav_path (kind_of upd) (effective_user_id upd) (time_now sc)),
          Log INFO (log_converted_prefix
            @ wav_path (kind_of upd) (effective_user_id upd) (time_now sc)),
          Remove (original_path (kind_of upd) (effective_user_id upd) (time_now sc))]\<rparr>"

subsection \<open>Concrete requests\<close>

text \<open>
  A voice message and a video note from requester 42 in chat 7, a text message that
  carries neither, an event without a message, an empty storage, a storage that holds a
  converted file, and the scenario in which every collaborator succeeds and the
  provider answers \<^verbatim>\<open>hello world\<close>.
\<close>

definition voice_request :: update where
  "voice_request =
     \<lparr>message = Some \<lparr>voice = Some ''voice-file-id'', video_note = None\<rparr>,
      effective_user_id = 42, effective_chat_id = 7\<rparr>"

definition video_note_request :: update where
  "video_note_request =
     \<lparr>message = Some \<lparr>voice = None, video_note = Some ''note-file-id''\<rparr>,
      effective_user_id = 42, effective_chat_id = 7\<rparr>"

definition text_request :: update where
  "text_request =
     \<lparr>message = Some \<lparr>voice = None, video_note = None\<rparr>,
      effective_user_id = 42, effective_chat_id = 7\<rparr>"

definition no_message :: update where
  "no_message = \<lparr>message = None, effective_user_id = 42, effective_chat_id = 7\<rparr>"

definition empty_storage :: world where
  "empty_storage = \<lparr>files = {}, trace = []\<rparr>"

definition storage_with_wav :: world where
  "storage_with_wav = \<lparr>files = {wav_path Voice 42 1700000000}, trace = []\<rparr>"

definition all_succeed :: scenario where
  "all_succeed =
     \<lparr>reply_text_res = None, makedirs_res = None, send_chat_action_res = None,
      get_file_res = None, time_now = 1700000000, download_res = None,
      download_leaves_file = False, edit_converting_res = None, convert_res = None,
      convert_leaves_file = False, edit_failure_res = None, remove_source_res = None,
      edit_recognizing_res = None, recognize_res = Inr ''hello world'',
      remove_wav_res = None, edit_final_res = None\<rparr>"

text \<open>
  Failures used below: the chat platform refuses an edit, the file system refuses a
  removal, the disk is full during the conversion, the coroutine is cancelled.
\<close>

definition edit_refused :: exn where
  "edit_refused = OtherException ''Message to edit not found''"

definition permission_denied :: string where
  "permission_denied = ''[Errno 13] Permission denied''"

definition disk_full :: exn where
  "disk_full = OSError ''[Errno 28] No space left on device''"

definition cancelled :: exn where
  "cancelled = BaseExc ''CancelledError''"

section \<open>Properties\<close>

subsection \<open>Decimal rendering and storage keys\<close>

lemma digit_char_cases:
  assumes "d < 10"
  shows "d = 0 \<or> d = 1 \<or> d = 2 \<or> d = 3 \<or> d = 4 \<or> d = 5 \<or> d = 6 \<or> d = 7 \<or> d = 8 \<or> d = (9::nat)"
  using assms by arith

lemma digit_char_in: "d < 10 \<Longrightarrow> digit_char d \<in> set ''0123456789''"
  using digit_char_cases [of d] by (auto simp: digit_char_def)

lemma digit_char_inj: "d < 10 \<Longrightarrow> d' < 10 \<Longrightarrow> digit_char d = digit_char d' \<Longrightarrow> d = d'"
  using digit_char_cases [of d] digit_char_cases [of d'] by (auto simp: digit_char_def)

lemma digits_not_Nil: "digits n \<noteq> []"
  by (subst digits.simps) simp

lemma set_digits: "set (digits n) \<subseteq> set ''0123456789''"
proof (induction n rule: digits.induct)
  case (1 n)
  show ?case
  proof (cases "n < 10")
    case True
    then show ?thesis using digit_char_in [of n] by (subst digits.simps) simp
  next
    case False
    have "n mod 10 < 10" by simp
    then have "digit_char (n mod 10) \<in> set ''0123456789''" by (rule digit_char_in)
    with False "1.IH" show ?thesis by (subst digits.simps) simp
  qed
qed

lemma digits_inj: "digits n = digits m \<Longrightarrow> n = m"
proof (induction n arbitrary: m rule: digits.induct)
  case (1 n)
  show ?case
  proof (cases "n < 10")
    case n: True
    show ?thesis
    proof (cases "m < 10")
      case True
      with n "1.prems" show ?thesis
        by (simp add: digits.simps [of n] digits.simps [of m] digit_char_inj)
    next
      case False
      with n "1.prems" digits_not_Nil [of "m div 10"] show ?thesis
        by (simp add: digits.simps [of n] digits.simps [of m])
    qed
  next
    case n: False
    show ?thesis
    proof (cases "m < 10")
      case True
      with n "1.prems" digits_not_Nil [of "n div 10"] show ?thesis
        by (simp add: digits.simps [of n] digits.simps [of m])
    next
      case False
      with n "1.prems" have eq: "digits (n div 10) = digits (m div 10)"
        and d: "digit_char (n mod 10) = digit_char (m mod 10)"
        by (simp_all add: digits.simps [of n] digits.simps [of m])
      from "1.IH" [OF n eq] have "n div 10 = m div 10" .
      moreover from d have "n mod 10 = m mod 10" by (simp add: digit_char_inj)
      ultimately show ?thesis by (metis div_mult_mod_eq)
    qed
  qed
qed

lemma underscore_notin_digits: "CHR ''_'' \<notin> set (digits n)"
  using set_digits [of n] by auto

lemma minus_notin_digits: "CHR ''-'' \<notin> set (digits n)"
  using set_digits [of n] by auto

lemma underscore_notin_str_int: "CHR ''_'' \<notin> set (str_int i)"
  by (simp add: str_int_def underscore_notin_digits)

lemma str_int_inj: "str_int i = str_int j \<Longrightarrow> i = j"
proof -
  assume eq: "str_int i = str_int j"
  have hd_neg: "\<And>n. CHR ''-'' # digits n \<noteq> digits m" for m
    using minus_notin_digits [of m] by (metis list.set_intros(1))
  show ?thesis
  proof (cases "i < 0")
    case i: True
    show ?thesis
    proof (cases "j < 0")
      case True
      with i eq have "digits (nat (- i)) = digits (nat (- j))" by (simp add: str_int_def)
      then have "nat (- i) = nat (- j)" by (rule digits_inj)
      with i True show ?thesis by simp
    next
      case False
      with i eq hd_neg [of "nat (- i)" "nat j"] show ?thesis by (simp add: str_int_def)
    qed
  next
    case i: False
    show ?thesis
    proof (cases "j < 0")
      case True
      with i eq hd_neg [of "nat (- j)" "nat i"] show ?thesis by (simp add: str_int_def)
    next
      case False
      with i eq have "digits (nat i) = digits (nat j)" by (simp add: str_int_def)
      then have "nat i = nat j" by (rule digits_inj)
      with i False show ?thesis by simp
    qed
  qed
qed

lemma split_at_first:
  assumes "x \<notin> set xs" and "x \<notin> set xs'" and "xs @ x # ys = xs' @ x # ys'"
  shows "xs = xs' \<and> ys = ys'"
  using assms
proof (induction xs arbitrary: xs')
  case Nil
  then show ?case by (cases xs') auto
next
  case (Cons a xs)
  then show ?case by (cases xs') auto
qed

lemma base_name_inj:
  assumes "base_name k1 u1 t1 = base_name k2 u2 t2"
  shows "k1 = k2 \<and> u1 = u2 \<and> t1 = t2"
proof -
  have len: "length (kind_prefix k1) = length (kind_prefix k2)"
    by (cases k1; cases k2) simp_all
  from assms have "kind_prefix k1 @ (str_int u1 @ ''_'' @ str_int t1)
      = kind_prefix k2 @ (str_int u2 @ ''_'' @ str_int t2)"
    by (simp add: base_name_def)
  with len have p: "kind_prefix k1 = kind_prefix k2"
    and r: "str_int u1 @ CHR ''_'' # str_int t1 = str_int u2 @ CHR ''_'' # str_int t2"
    by simp_all
  from p have "k1 = k2" by (cases k1; cases k2) simp_all
  moreover from r have "str_int u1 = str_int u2 \<and> str_int t1 = str_int t2"
    using underscore_notin_str_int [of u1] underscore_notin_str_int [of u2]
    by (rule split_at_first [rotated 2])
  ultimately show ?thesis by (simp add: str_int_inj)
qed

lemma base_name_not_abs: "base_name k u t \<noteq> [] \<and> hd (base_name k u t) \<noteq> CHR ''/''"
  by (cases k) (simp_all add: base_name_def)

lemma original_path_eq: "original_path k u t = ''temp_media/'' @ base_name k u t @ source_ext k"
  using base_name_not_abs [of k u t]
  by (simp add: original_path_def path_join_def TEMP_MEDIA_DIR_def hd_append)

lemma wav_path_eq: "wav_path k u t = ''temp_media/'' @ base_name k u t @ ''.wav''"
  using base_name_not_abs [of k u t]
  by (simp add: wav_path_def path_join_def TEMP_MEDIA_DIR_def hd_append)

lemma source_ext_length: "length (source_ext k) = 4"
  by (cases k) simp_all

lemma source_ext_not_wav: "source_ext k \<noteq> ''.wav''"
  by (cases k) simp_all

lemma original_path_not_wav_path: "original_path k1 u1 t1 \<noteq> wav_path k2 u2 t2"
proof
  assume "original_path k1 u1 t1 = wav_path k2 u2 t2"
  then have "base_name k1 u1 t1 @ source_ext k1 = base_name k2 u2 t2 @ ''.wav''"
    by (simp add: original_path_eq wav_path_eq)
  then have "source_ext k1 = ''.wav''"
    using source_ext_length [of k1] by (simp add: append_eq_append_conv)
  with source_ext_not_wav show False by blast
qed

lemma original_path_inj:
  assumes "original_path k1 u1 t1 = original_path k2 u2 t2"
  shows "k1 = k2 \<and> u1 = u2 \<and> t1 = t2"
proof -
  from assms have "base_name k1 u1 t1 @ source_ext k1 = base_name k2 u2 t2 @ source_ext k2"
    by (simp add: original_path_eq)
  then have "base_name k1 u1 t1 = base_name k2 u2 t2"
    using source_ext_length [of k1] source_ext_length [of k2] by (simp add: append_eq_append_conv)
  then show ?thesis by (rule base_name_inj)
qed

lemma wav_path_inj:
  assumes "wav_path k1 u1 t1 = wav_path k2 u2 t2"
  shows "k1 = k2 \<and> u1 = u2 \<and> t1 = t2"
proof -
  from assms have "base_name k1 u1 t1 = base_name k2 u2 t2"
    by (simp add: wav_path_eq)
  then show ?thesis by (rule base_name_inj)
qed

text \<open>
  Claim C9. Two requests from different requesters never get the same storage key,
  whatever their media kinds and their timestamps: the key of a source file and the key
  of a converted file determine the requester id, and a source key is never a converted
  key.
\<close>

theorem storage_keys_distinct_across_requesters:
  assumes "u1 \<noteq> u2"
  shows "original_path k1 u1 t1 \<noteq> original_path k2 u2 t2
       \<and> wav_path k1 u1 t1 \<noteq> wav_path k2 u2 t2
       \<and> original_path k1 u1 t1 \<noteq> wav_path k2 u2 t2
       \<and> wav_path k1 u1 t1 \<noteq> original_path k2 u2 t2"
  using assms original_path_inj [of k1 u1 t1 k2 u2 t2] wav_path_inj [of k1 u1 t1 k2 u2 t2]
    original_path_not_wav_path [of k1 u1 t1 k2 u2 t2]
    original_path_not_wav_path [of k2 u2 t2 k1 u1 t1]
  by metis

theorem storage_keys_distinct_witness:
  "(12::int) \<noteq> 1
   \<and> original_path Voice 12 345 \<noteq> original_path Voice 1 2345
   \<and> wav_path Voice 12 345 \<noteq> wav_path Voice 1 2345
   \<and> original_path Voice 12 345 \<noteq> wav_path Voice 1 2345
   \<and> wav_path Voice 12 345 \<noteq> original_path Voice 1 2345"
proof -
  have h: "(12::int) \<noteq> 1" by simp
  show ?thesis
    using h storage_keys_distinct_across_requesters [OF h, of Voice 345 Voice 2345] by simp
qed

subsection \<open>Storage and trace under the primitive operations\<close>

lemma trace_emit: "trace (emit ev w) = trace w @ [ev]"
  by (simp add: emit_def)

lemma files_emit: "files (emit ev w) = files w"
  by (simp add: emit_def)

lemma trace_logger: "trace (logger l s w) = trace w @ [Log l s]"
  by (simp add: logger_def emit_def)

lemma files_logger: "files (logger l s w) = files w"
  by (simp add: logger_def emit_def)

lemma trace_add_file: "trace (add_file p w) = trace w"
  by (simp add: add_file_def)

lemma files_add_file: "files (add_file p w) = insert p (files w)"
  by (simp add: add_file_def)

lemmas world_simps =
  trace_emit files_emit trace_logger files_logger trace_add_file files_add_file

lemma events_since_append: "trace w' = trace w @ evs \<Longrightarrow> events_since w w' = evs"
  by (simp add: events_since_def)

lemma status_events_append: "status_events (xs @ ys) = status_events xs @ status_events ys"
  by (simp add: status_events_def)

lemma original_path_not_Nil: "original_path k u t \<noteq> []"
  by (simp add: original_path_eq)

lemma wav_path_not_original_path: "wav_path k u t \<noteq> original_path k' u' t'"
  using original_path_not_wav_path [of k' u' t' k u t] by simp

text \<open>The definitions that a run on a concrete request unfolds.\<close>

lemmas run_defs =
  handle_media_def try_body_def except_clause_def finally_clause_def recognize_and_report_def
  transcribe_voice_def remove_wav_def os_remove_def path_exists_def emit_def logger_def
  add_file_def Let_def final_edit_def truthy_def

lemmas request_defs =
  all_succeed_def voice_request_def empty_storage_def storage_with_wav_def

subsection \<open>The recogniser stage\<close>

lemma recognize_try_files: "files (snd (recognize_try r w)) = files w"
  by (cases "(r, w)" rule: recognize_try.cases) (simp_all add: world_simps)

lemma recognize_try_status:
  "\<exists>evs. trace (snd (recognize_try r w)) = trace w @ evs \<and> status_events evs = []"
  by (cases "(r, w)" rule: recognize_try.cases) (simp_all add: world_simps status_events_def)

lemma recognize_try_calls:
  "\<exists>evs. trace (snd (recognize_try r w)) = trace w @ evs \<and> calls evs = []"
  by (cases "(r, w)" rule: recognize_try.cases) (simp_all add: world_simps calls_def)

lemma recognize_try_result:
  "fst (recognize_try r w) \<noteq> Inr None
   \<and> (fst (recognize_try r w) = Inr (Some []) \<longrightarrow> r = Inr [])
   \<and> (\<forall>t. r = Inr t \<longrightarrow> fst (recognize_try r w) = Inr (Some t))
   \<and> (\<forall>e. fst (recognize_try r w) = Inl e \<longrightarrow> r = Inl e \<and> \<not> is_Exception e)"
  by (cases "(r, w)" rule: recognize_try.cases)
    (simp_all add: msg_no_speech_def msg_audio_error_def)

lemma remove_wav_files:
  "files (remove_wav sc p w) =
     (if p \<in> files w \<and> remove_wav_res sc = None then files w - {p} else files w)"
  by (simp add: remove_wav_def os_remove_def path_exists_def Let_def world_simps
      split: option.splits)

lemma remove_wav_status:
  "\<exists>evs. trace (remove_wav sc p w) = trace w @ evs \<and> status_events evs = []"
  by (simp add: remove_wav_def os_remove_def path_exists_def Let_def world_simps
      status_events_def split: option.splits)

lemma remove_wav_calls:
  "\<exists>evs. trace (remove_wav sc p w) = trace w @ evs \<and> calls evs = [Remove p]"
  by (simp add: remove_wav_def os_remove_def path_exists_def Let_def world_simps
      calls_def split: option.splits)

text \<open>
  When the file exists, the stage is the start of the recognition, the \<^verbatim>\<open>try\<close> with
  its \<^verbatim>\<open>except\<close> clauses, and the removal, in this order.
\<close>

lemma transcribe_voice_present:
  assumes "path_exists p w"
  shows "transcribe_voice sc p w =
    (fst (recognize_try (recognize_res sc)
            (emit (Recognize p ''ru-RU'') (logger INFO (log_start_prefix @ p) w))),
     remove_wav sc p
       (snd (recognize_try (recognize_res sc)
               (emit (Recognize p ''ru-RU'') (logger INFO (log_start_prefix @ p) w)))))"
  using assms by (simp add: transcribe_voice_def Let_def split: prod.splits)

lemma transcribe_voice_missing:
  assumes "\<not> path_exists p w"
  shows "transcribe_voice sc p w =
    (Inr (Some msg_file_not_found),
     logger ERROR (''File not found for transcription: '' @ p) w)"
  using assms by (simp add: transcribe_voice_def)

lemma transcribe_voice_files:
  "files (snd (transcribe_voice sc p w)) =
     (if p \<in> files w \<and> remove_wav_res sc = None then files w - {p} else files w)"
proof (cases "path_exists p w")
  case True
  then show ?thesis
    by (simp add: transcribe_voice_present remove_wav_files recognize_try_files world_simps)
next
  case False
  then show ?thesis
    by (simp add: transcribe_voice_missing world_simps path_exists_def)
qed

lemma transcribe_voice_status:
  "\<exists>evs. trace (snd (transcribe_voice sc p w)) = trace w @ evs \<and> status_events evs = []"
proof (cases "path_exists p w")
  case False
  then show ?thesis
    by (simp add: transcribe_voice_missing world_simps status_events_def)
next
  case True
  let ?w2 = "emit (Recognize p ''ru-RU'') (logger INFO (log_start_prefix @ p) w)"
  let ?w3 = "snd (recognize_try (recognize_res sc) ?w2)"
  from recognize_try_status [of "recognize_res sc" ?w2]
  obtain evs1 where e1: "trace ?w3 = trace ?w2 @ evs1" "status_events evs1 = []" by auto
  from remove_wav_status [of sc p ?w3]
  obtain evs2 where e2: "trace (remove_wav sc p ?w3) = trace ?w3 @ evs2" "status_events evs2 = []"
    by auto
  from True e1 e2 show ?thesis
    by (simp add: transcribe_voice_present world_simps status_events_def)
qed

lemma transcribe_voice_calls:
  assumes "path_exists p w"
  shows "calls (events_since w (snd (transcribe_voice sc p w))) = [Recognize p ''ru-RU'', Remove p]"
proof -
  let ?w2 = "emit (Recognize p ''ru-RU'') (logger INFO (log_start_prefix @ p) w)"
  let ?w3 = "snd (recognize_try (recognize_res sc) ?w2)"
  from recognize_try_calls [of "recognize_res sc" ?w2]
  obtain evs1 where e1: "trace ?w3 = trace ?w2 @ evs1" "calls evs1 = []" by auto
  from remove_wav_calls [of sc p ?w3]
  obtain evs2 where e2: "trace (remove_wav sc p ?w3) = trace ?w3 @ evs2" "calls evs2 = [Remove p]"
    by auto
  from e1 e2 have "trace (remove_wav sc p ?w3) =
      trace w @ ([Log INFO (log_start_prefix @ p), Recognize p ''ru-RU''] @ evs1 @ evs2)"
    by (simp add: world_simps)
  then have "events_since w (remove_wav sc p ?w3) =
      [Log INFO (log_start_prefix @ p), Recognize p ''ru-RU''] @ evs1 @ evs2"
    by (rule events_since_append)
  with assms e1 e2 show ?thesis
    by (simp add: transcribe_voice_present calls_def)
qed

lemma transcribe_voice_result:
  "fst (transcribe_voice sc p w) \<noteq> Inr None
   \<and> (fst (transcribe_voice sc p w) = Inr (Some []) \<longrightarrow> path_exists p w \<and> recognize_res sc = Inr [])
   \<and> (\<forall>t. path_exists p w \<and> recognize_res sc = Inr t
         \<longrightarrow> fst (transcribe_voice sc p w) = Inr (Some t))
   \<and> (\<forall>e. fst (transcribe_voice sc p w) = Inl e
         \<longrightarrow> path_exists p w \<and> recognize_res sc = Inl e \<and> \<not> is_Exception e)"
proof (cases "path_exists p w")
  case False
  then show ?thesis
    by (simp add: transcribe_voice_missing msg_file_not_found_def)
next
  case True
  let ?w2 = "emit (Recognize p ''ru-RU'') (logger INFO (log_start_prefix @ p) w)"
  from True recognize_try_result [of "recognize_res sc" ?w2] show ?thesis
    by (simp add: transcribe_voice_present)
qed

text \<open>
  Claim C2. When the file exists, the recogniser stage returns one text for each
  outcome of the provider: the fixed no-speech text for \<^verbatim>\<open>sr.UnknownValueError\<close>; for
  \<^verbatim>\<open>sr.RequestError\<close> the service-error text, which holds the detail of the error
  between its prefix and the closing bracket; for every other exception that
  \<^verbatim>\<open>except Exception\<close> catches the fixed audio-error text, which does not depend on the
  exception, while the detail goes to the log at level \<open>ERROR\<close>.
\<close>

theorem recognizer_maps_provider_outcomes:
  assumes "path_exists file_path w"
  shows "fst (transcribe_voice (sc\<lparr>recognize_res := Inl UnknownValueError\<rparr>) file_path w)
           = Inr (Some msg_no_speech)
       \<and> fst (transcribe_voice (sc\<lparr>recognize_res := Inl (RequestError d)\<rparr>) file_path w)
           = Inr (Some (msg_service_error_prefix @ d @ '']''))
       \<and> (is_Exception e \<and> e \<noteq> UnknownValueError \<and> (\<forall>d'. e \<noteq> RequestError d') \<longrightarrow>
            fst (transcribe_voice (sc\<lparr>recognize_res := Inl e\<rparr>) file_path w)
              = Inr (Some msg_audio_error)
            \<and> Log ERROR (log_unexpected_prefix @ exn_str e)
                \<in> set (events_since w
                          (snd (transcribe_voice (sc\<lparr>recognize_res := Inl e\<rparr>) file_path w))))"
proof (intro conjI impI)
  from assms
  show "fst (transcribe_voice (sc\<lparr>recognize_res := Inl UnknownValueError\<rparr>) file_path w)
           = Inr (Some msg_no_speech)"
    by (simp add: transcribe_voice_present)
  from assms
  show "fst (transcribe_voice (sc\<lparr>recognize_res := Inl (RequestError d)\<rparr>) file_path w)
           = Inr (Some (msg_service_error_prefix @ d @ '']''))"
    by (simp add: transcribe_voice_present)
next
  assume e: "is_Exception e \<and> e \<noteq> UnknownValueError \<and> (\<forall>d'. e \<noteq> RequestError d')"
  with assms
  show "fst (transcribe_voice (sc\<lparr>recognize_res := Inl e\<rparr>) file_path w)
          = Inr (Some msg_audio_error)"
    by (cases e) (simp_all add: transcribe_voice_present)
  from e assms
  show "Log ERROR (log_unexpected_prefix @ exn_str e)
          \<in> set (events_since w
                    (snd (transcribe_voice (sc\<lparr>recognize_res := Inl e\<rparr>) file_path w)))"
    by (cases e)
      (simp_all add: transcribe_voice_present remove_wav_def os_remove_def Let_def
        path_exists_def world_simps events_since_def split: option.splits)
qed

theorem recognizer_maps_provider_outcomes_witness:
  "path_exists (wav_path Voice 42 1700000000) storage_with_wav
   \<and> fst (transcribe_voice (all_succeed\<lparr>recognize_res := Inl UnknownValueError\<rparr>)
            (wav_path Voice 42 1700000000) storage_with_wav)
       = Inr (Some msg_no_speech)
   \<and> fst (transcribe_voice (all_succeed\<lparr>recognize_res := Inl (RequestError ''timed out'')\<rparr>)
            (wav_path Voice 42 1700000000) storage_with_wav)
       = Inr (Some (msg_service_error_prefix @ ''timed out'' @ '']''))
   \<and> is_Exception disk_full
   \<and> fst (transcribe_voice (all_succeed\<lparr>recognize_res := Inl disk_full\<rparr>)
            (wav_path Voice 42 1700000000) storage_with_wav)
       = Inr (Some msg_audio_error)
   \<and> Log ERROR (log_unexpected_prefix @ ''[Errno 28] No space left on device'')
       \<in> set (events_since storage_with_wav
                 (snd (transcribe_voice (all_succeed\<lparr>recognize_res := Inl disk_full\<rparr>)
                         (wav_path Voice 42 1700000000) storage_with_wav)))"
proof -
  have h: "path_exists (wav_path Voice 42 1700000000) storage_with_wav"
    by (simp add: path_exists_def storage_with_wav_def)
  show ?thesis
    using h recognizer_maps_provider_outcomes
      [OF h, of all_succeed "''timed out''" disk_full]
    by (simp add: disk_full_def)
qed

text \<open>
  Claim C7. When the file does not exist at entry, the recogniser stage returns the
  fixed file-not-found error text; all it does is write one line to the log, so the
  remote recognition is not called and the storage is left as it was.
\<close>

theorem missing_artifact_skips_recognition:
  assumes "\<not> path_exists file_path w"
  shows "fst (transcribe_voice sc file_path w) = Inr (Some msg_file_not_found)
       \<and> events_since w (snd (transcribe_voice sc file_path w))
           = [Log ERROR (''File not found for transcription: '' @ file_path)]
       \<and> (\<forall>p l. Recognize p l \<notin> set (events_since w (snd (transcribe_voice sc file_path w))))
       \<and> files (snd (transcribe_voice sc file_path w)) = files w"
  using assms
  by (simp add: transcribe_voice_missing world_simps events_since_def)

theorem missing_artifact_skips_recognition_witness:
  "\<not> path_exists (wav_path Voice 42 1700000000) empty_storage
   \<and> fst (transcribe_voice all_succeed (wav_path Voice 42 1700000000) empty_storage)
       = Inr (Some msg_file_not_found)
   \<and> events_since empty_storage
        (snd (transcribe_voice all_succeed (wav_path Voice 42 1700000000) empty_storage))
       = [Log ERROR (''File not found for transcription: '' @ wav_path Voice 42 1700000000)]
   \<and> (\<forall>p l. Recognize p l \<notin> set (events_since empty_storage
        (snd (transcribe_voice all_succeed (wav_path Voice 42 1700000000) empty_storage))))
   \<and> files (snd (transcribe_voice all_succeed (wav_path Voice 42 1700000000) empty_storage))
       = files empty_storage"
proof -
  have h: "\<not> path_exists (wav_path Voice 42 1700000000) empty_storage"
    by (simp add: path_exists_def empty_storage_def)
  show ?thesis
    using h missing_artifact_skips_recognition [OF h, of all_succeed] by simp
qed

text \<open>
  Claim C6 as stated fails in the branch where the file is missing at entry: the stage
  returns at line 45, before the \<^verbatim>\<open>try\<close> statement, and \<^verbatim>\<open>os.remove\<close> is not called.
\<close>

theorem no_deletion_when_missing_counterexample:
  "Remove (wav_path Voice 42 1700000000)
     \<notin> set (trace (snd (transcribe_voice all_succeed (wav_path Voice 42 1700000000)
                           empty_storage)))"
  by (simp add: transcribe_voice_def path_exists_def logger_def emit_def empty_storage_def)

text \<open>
  Claim C6, amended. When the file exists at entry, then on every branch (a transcript,
  no speech, a provider failure, any other exception, caught or not) the calls of the
  stage are the recognition and then one removal of the file, whether the removal
  succeeds or not. When the file is missing at entry the stage calls neither.
\<close>

theorem deletion_attempted_after_recognition:
  "(path_exists file_path w \<longrightarrow>
      calls (events_since w (snd (transcribe_voice sc file_path w)))
        = [Recognize file_path ''ru-RU'', Remove file_path])
   \<and> (\<not> path_exists file_path w \<longrightarrow>
      calls (events_since w (snd (transcribe_voice sc file_path w))) = [])"
proof (intro conjI impI)
  assume "path_exists file_path w"
  then show "calls (events_since w (snd (transcribe_voice sc file_path w)))
               = [Recognize file_path ''ru-RU'', Remove file_path]"
    by (rule transcribe_voice_calls)
next
  assume "\<not> path_exists file_path w"
  then show "calls (events_since w (snd (transcribe_voice sc file_path w))) = []"
    by (simp add: transcribe_voice_missing world_simps events_since_def calls_def)
qed

theorem deletion_attempted_after_recognition_witness:
  "path_exists (wav_path Voice 42 1700000000) storage_with_wav
   \<and> calls (events_since storage_with_wav
        (snd (transcribe_voice (all_succeed\<lparr>recognize_res := Inl cancelled\<rparr>)
                (wav_path Voice 42 1700000000) storage_with_wav)))
       = [Recognize (wav_path Voice 42 1700000000) ''ru-RU'',
          Remove (wav_path Voice 42 1700000000)]
   \<and> \<not> path_exists (wav_path Voice 42 1700000000) empty_storage
   \<and> calls (events_since empty_storage
        (snd (transcribe_voice all_succeed (wav_path Voice 42 1700000000) empty_storage))) = []"
proof -
  have h1: "path_exists (wav_path Voice 42 1700000000) storage_with_wav"
    by (simp add: path_exists_def storage_with_wav_def)
  have h2: "\<not> path_exists (wav_path Voice 42 1700000000) empty_storage"
    by (simp add: path_exists_def empty_storage_def)
  show ?thesis
    using h1 h2
      deletion_attempted_after_recognition
        [of "wav_path Voice 42 1700000000" storage_with_wav
          "all_succeed\<lparr>recognize_res := Inl cancelled\<rparr>"]
      deletion_attempted_after_recognition
        [of "wav_path Voice 42 1700000000" empty_storage all_succeed]
    by simp
qed

subsection \<open>The stages of the handler\<close>

text \<open>
  Each stage is described by the ways it can end. For each way the rule gives the
  exception or the pending action, the local variables, the storage, and the status
  operations among the events the stage adds to the trace.
\<close>

lemma try_body_cases:
  assumes "try_body sc k u c fr w = (r, fr1, w1)"
  obtains
    (setup_failed) e where "r = Some e" and "fr1 = fr" and "files w1 = files w"
      and "\<exists>evs. trace w1 = trace w @ evs \<and> status_events evs = []"
      and "makedirs_res sc = Some e \<or> send_chat_action_res sc = Some e
           \<or> get_file_res sc = Some e"
  | (download_failed) e where "r = Some e"
      and "fr1 = fr\<lparr>temp_file_path := Some (wav_path k u (time_now sc)),
                     original_media_path := Some (original_path k u (time_now sc))\<rparr>"
      and "files w1 = files w \<or> files w1 = insert (original_path k u (time_now sc)) (files w)"
      and "\<exists>evs. trace w1 = trace w @ evs \<and> status_events evs = []"
      and "download_res sc = Some e"
  | (converting_edit_failed) e where "r = Some e"
      and "fr1 = fr\<lparr>temp_file_path := Some (wav_path k u (time_now sc)),
                     original_media_path := Some (original_path k u (time_now sc))\<rparr>"
      and "files w1 = insert (original_path k u (time_now sc)) (files w)"
      and "\<exists>evs. trace w1 = trace w @ evs \<and> status_events evs = [EditText msg_converting None]"
      and "edit_converting_res sc = Some e"
  | (convert_failed) e where "r = Some e"
      and "fr1 = fr\<lparr>temp_file_path := Some (wav_path k u (time_now sc)),
                     original_media_path := Some (original_path k u (time_now sc))\<rparr>"
      and "files w1 = insert (original_path k u (time_now sc)) (files w)
           \<or> convert_leaves_file sc \<and> files w1 =
                insert (wav_path k u (time_now sc)) (insert (original_path k u (time_now sc)) (files w))"
      and "\<exists>evs. trace w1 = trace w @ evs \<and> status_events evs = [EditText msg_converting None]"
      and "convert_res sc = Some e"
  | (converted) "r = None"
      and "fr1 = fr\<lparr>temp_file_path := Some (wav_path k u (time_now sc)),
                     original_media_path := Some (original_path k u (time_now sc))\<rparr>"
      and "files w1 =
             insert (wav_path k u (time_now sc)) (insert (original_path k u (time_now sc)) (files w))"
      and "\<exists>evs. trace w1 = trace w @ evs \<and> status_events evs = [EditText msg_converting None]"
proof (cases "makedirs_res sc")
  case (Some e)
  with assms show ?thesis
    by (intro setup_failed [of e]) (auto simp: try_body_def Let_def world_simps status_events_def)
next
  case mk: None
  show ?thesis
  proof (cases "send_chat_action_res sc")
    case (Some e)
    with mk assms show ?thesis
      by (intro setup_failed [of e]) (auto simp: try_body_def Let_def world_simps status_events_def)
  next
    case ca: None
    show ?thesis
    proof (cases "get_file_res sc")
      case (Some e)
      with mk ca assms show ?thesis
        by (intro setup_failed [of e]) (auto simp: try_body_def Let_def world_simps status_events_def)
    next
      case gf: None
      show ?thesis
      proof (cases "download_res sc")
        case (Some e)
        with mk ca gf assms show ?thesis
          by (intro download_failed [of e])
            (auto simp: try_body_def Let_def world_simps status_events_def split: if_splits)
      next
        case dl: None
        show ?thesis
        proof (cases "edit_converting_res sc")
          case (Some e)
          with mk ca gf dl assms show ?thesis
            by (intro converting_edit_failed [of e])
              (auto simp: try_body_def Let_def world_simps status_events_def)
        next
          case ec: None
          show ?thesis
          proof (cases "convert_res sc")
            case (Some e)
            with mk ca gf dl ec assms show ?thesis
              by (intro convert_failed [of e])
                (auto simp: try_body_def Let_def world_simps status_events_def split: if_splits)
          next
            case None
            with mk ca gf dl ec assms show ?thesis
              by (intro converted)
                (auto simp: try_body_def Let_def world_simps status_events_def)
          qed
        qed
      qed
    qed
  qed
qed

lemma except_clause_cases:
  assumes "except_clause sc r w = (pend, w1)"
  obtains
    (no_exception) "r = None" and "pend = Continue" and "w1 = w"
  | (not_caught) e where "r = Some e" and "\<not> is_Exception e" and "pend = Raise e" and "w1 = w"
  | (reported) e where "r = Some e" and "is_Exception e" and "files w1 = files w"
      and "\<exists>evs. trace w1 = trace w @ evs \<and> status_events evs = [EditText msg_stage_failed None]"
      and "pend = (case edit_failure_res sc of None \<Rightarrow> Return | Some e2 \<Rightarrow> Raise e2)"
proof (cases r)
  case None
  with assms show ?thesis
    by (intro no_exception) (auto simp: except_clause_def)
next
  case (Some e)
  show ?thesis
  proof (cases "is_Exception e")
    case False
    with Some assms show ?thesis
      by (intro not_caught [of e]) (auto simp: except_clause_def)
  next
    case True
    with Some assms show ?thesis
      by (intro reported [of e])
        (auto simp: except_clause_def Let_def world_simps status_events_def split: option.splits)
  qed
qed

lemma finally_clause_None:
  "original_media_path fr = None \<Longrightarrow> finally_clause sc fr w = (None, w)"
  by (simp add: finally_clause_def)

lemma finally_clause_cases:
  assumes "finally_clause sc fr w = (fin, w1)" and "original_media_path fr = Some p" and "p \<noteq> []"
  obtains
    (removed) "fin = None" and "files w1 = files w - {p}"
      and "\<exists>evs. trace w1 = trace w @ evs \<and> status_events evs = []"
  | (remove_failed) d where "fin = Some d" and "remove_source_res sc = Some d"
      and "files w1 = files w" and "p \<in> files w"
      and "\<exists>evs. trace w1 = trace w @ evs \<and> status_events evs = []"
proof (cases "p \<in> files w")
  case False
  with assms show ?thesis
    by (intro removed) (auto simp: finally_clause_def path_exists_def status_events_def)
next
  case True
  show ?thesis
  proof (cases "remove_source_res sc")
    case None
    with True assms show ?thesis
      by (intro removed)
        (auto simp: finally_clause_def os_remove_def path_exists_def Let_def world_simps
          status_events_def)
  next
    case (Some d)
    with True assms show ?thesis
      by (intro remove_failed [of d])
        (auto simp: finally_clause_def os_remove_def path_exists_def Let_def world_simps
          status_events_def)
  qed
qed

lemma except_clause_files: "files (snd (except_clause sc r w)) = files w"
  by (simp add: except_clause_def Let_def world_simps split: option.splits)

lemma except_clause_Some: "fst (except_clause sc (Some e) w) \<noteq> Continue"
  by (simp add: except_clause_def Let_def split: option.splits)

lemma finally_clause_files:
  assumes "remove_source_res sc = None" and "original_media_path fr \<noteq> Some []"
  shows "fst (finally_clause sc fr w) = None
       \<and> files (snd (finally_clause sc fr w)) =
           (case original_media_path fr of None \<Rightarrow> files w | Some p \<Rightarrow> files w - {p})"
  using assms
  by (auto simp: finally_clause_def os_remove_def path_exists_def Let_def world_simps
      split: option.splits)

lemma recognize_and_report_cases:
  assumes "recognize_and_report sc fr w = (res, w1)" and "temp_file_path fr = Some p"
  obtains
    (edit_failed) e where "edit_recognizing_res sc = Some e" and "res = Raised e"
      and "files w1 = files w"
      and "\<exists>evs. trace w1 = trace w @ evs
             \<and> status_events evs = [EditText msg_recognizing None]"
  | (not_caught) e where "edit_recognizing_res sc = None" and "recognize_res sc = Inl e"
      and "\<not> is_Exception e" and "res = Raised e"
      and "files w1 = (if p \<in> files w \<and> remove_wav_res sc = None then files w - {p} else files w)"
      and "\<exists>evs. trace w1 = trace w @ evs
             \<and> status_events evs = [EditText msg_recognizing None]"
  | (reported) t where "edit_recognizing_res sc = None"
      and "res = (case edit_final_res sc of None \<Rightarrow> Returned | Some e \<Rightarrow> Raised e)"
      and "t = [] \<longrightarrow> recognize_res sc = Inr []"
      and "files w1 = (if p \<in> files w \<and> remove_wav_res sc = None then files w - {p} else files w)"
      and "\<exists>evs. trace w1 = trace w @ evs
             \<and> status_events evs = [EditText msg_recognizing None, final_edit (Some t)]"
      and "p \<in> files w \<longrightarrow> (\<forall>x. recognize_res sc = Inr x \<longrightarrow> t = x)"
proof (cases "edit_recognizing_res sc")
  case (Some e)
  with assms show ?thesis
    by (intro edit_failed [of e])
      (auto simp: recognize_and_report_def Let_def world_simps status_events_def)
next
  case None
  let ?w1 = "emit (EditText msg_recognizing None) w"
  obtain r w2 where tv: "transcribe_voice sc p ?w1 = (r, w2)"
    by (cases "transcribe_voice sc p ?w1")
  from transcribe_voice_status [of sc p ?w1] tv
  obtain evs where evs: "trace w2 = trace ?w1 @ evs" "status_events evs = []" by auto
  from transcribe_voice_files [of sc p ?w1] tv
  have fl: "files w2 = (if p \<in> files w \<and> remove_wav_res sc = None then files w - {p} else files w)"
    by (simp add: world_simps)
  have ex: "path_exists p ?w1 = (p \<in> files w)"
    by (simp add: path_exists_def world_simps)
  have fst_tv: "fst (transcribe_voice sc p ?w1) = r"
    by (simp add: tv)
  have "r \<noteq> Inr None
      \<and> (r = Inr (Some []) \<longrightarrow> p \<in> files w \<and> recognize_res sc = Inr [])
      \<and> (\<forall>t. p \<in> files w \<and> recognize_res sc = Inr t \<longrightarrow> r = Inr (Some t))
      \<and> (\<forall>e. r = Inl e \<longrightarrow> p \<in> files w \<and> recognize_res sc = Inl e \<and> \<not> is_Exception e)"
    using transcribe_voice_result [of sc p ?w1] unfolding fst_tv ex .
  then have r1: "r \<noteq> Inr None" and r2: "r = Inr (Some []) \<longrightarrow> recognize_res sc = Inr []"
    and r3: "\<forall>e. r = Inl e \<longrightarrow> recognize_res sc = Inl e \<and> \<not> is_Exception e"
    and r4: "\<forall>x. p \<in> files w \<and> recognize_res sc = Inr x \<longrightarrow> r = Inr (Some x)"
    by blast+
  show ?thesis
  proof (cases r)
    case (Inl e)
    with None assms tv have "res = Raised e" and "w1 = w2"
      by (auto simp: recognize_and_report_def Let_def)
    with None Inl r3 fl evs show ?thesis
      by (intro not_caught [of e]) (auto simp: world_simps status_events_def)
  next
    case (Inr tt)
    with r1 obtain t where t: "tt = Some t" by (cases tt) auto
    from None assms tv Inr t
    have res: "res = (case edit_final_res sc of None \<Rightarrow> Returned | Some e \<Rightarrow> Raised e)"
      and w1: "w1 = emit (final_edit (Some t)) w2"
      by (auto simp: recognize_and_report_def Let_def split: option.splits)
    have st: "is_status (final_edit (Some t))"
      by (simp add: final_edit_def)
    from r4 Inr t have link: "p \<in> files w \<longrightarrow> (\<forall>x. recognize_res sc = Inr x \<longrightarrow> t = x)"
      by auto
    from evs w1 st
    have tr: "\<exists>evs. trace w1 = trace w @ evs
               \<and> status_events evs = [EditText msg_recognizing None, final_edit (Some t)]"
      by (simp add: world_simps status_events_def)
    from r2 Inr t have empty: "t = [] \<longrightarrow> recognize_res sc = Inr []" by simp
    from fl w1
    have fl1: "files w1 =
        (if p \<in> files w \<and> remove_wav_res sc = None then files w - {p} else files w)"
      by (simp add: world_simps)
    show ?thesis
      by (rule reported [of t]) (rule None res empty fl1 tr link)+
  qed
qed

lemma handle_media_reply_failed:
  assumes "accepted upd" and "reply_text_res sc = Some e"
  shows "handle_media sc upd w = (Raised e, emit (ReplyText msg_ack) w)"
  using assms by (auto simp: handle_media_def accepted_def Let_def split: option.splits)

lemma handle_media_accepted:
  assumes "accepted upd" and "reply_text_res sc = None"
    and "try_body sc (kind_of upd) (effective_user_id upd) (effective_chat_id upd)
           \<lparr>temp_file_path = None, original_media_path = None\<rparr>
           (emit (ReplyText msg_ack) w) = (r, fr1, w2)"
    and "except_clause sc r w2 = (pend, w3)"
    and "finally_clause sc fr1 w3 = (fin, w4)"
  shows "handle_media sc upd w =
     (case fin of
        Some d \<Rightarrow> (Raised (OSError d), w4)
      | None \<Rightarrow>
         (case pend of
            Raise e \<Rightarrow> (Raised e, w4)
          | Return \<Rightarrow> (Returned, w4)
          | Continue \<Rightarrow> recognize_and_report sc fr1 w4))"
  using assms
  by (auto simp: handle_media_def accepted_def kind_of_def Let_def split: option.splits)

lemma failure_path:
  assumes acc: "accepted upd" and rp: "reply_text_res sc = None"
    and tb: "try_body sc (kind_of upd) (effective_user_id upd) (effective_chat_id upd)
           \<lparr>temp_file_path = None, original_media_path = None\<rparr>
           (emit (ReplyText msg_ack) w) = (Some e, fr1, w2)"
    and hm: "handle_media sc upd w = (res, w')"
    and fr: "original_media_path fr1 = None \<or> (\<exists>p. original_media_path fr1 = Some p \<and> p \<noteq> [])"
    and ex: "is_Exception e \<or> \<not> undisturbed sc"
  shows "\<exists>evs. trace w' = trace w2 @ evs
           \<and> (status_events evs = [] \<and> \<not> undisturbed sc
              \<or> status_events evs = [EditText msg_stage_failed None]
                 \<and> (res = Returned \<or> \<not> undisturbed sc))"
proof -
  obtain pend w3 where ec: "except_clause sc (Some e) w2 = (pend, w3)"
    by (cases "except_clause sc (Some e) w2")
  obtain fin w4 where fc: "finally_clause sc fr1 w3 = (fin, w4)"
    by (cases "finally_clause sc fr1 w3")
  from handle_media_accepted [OF acc rp tb ec fc] hm
  have unfold: "(res, w') =
     (case fin of
        Some d \<Rightarrow> (Raised (OSError d), w4)
      | None \<Rightarrow>
         (case pend of
            Raise e \<Rightarrow> (Raised e, w4)
          | Return \<Rightarrow> (Returned, w4)
          | Continue \<Rightarrow> recognize_and_report sc fr1 w4))"
    by simp
  have fin: "\<exists>evs. trace w4 = trace w3 @ evs \<and> status_events evs = []"
    and fin_ok: "fin \<noteq> None \<longrightarrow> remove_source_res sc \<noteq> None"
  proof -
    from fr show "\<exists>evs. trace w4 = trace w3 @ evs \<and> status_events evs = []"
    proof
      assume "original_media_path fr1 = None"
      with fc show ?thesis by (simp add: finally_clause_None status_events_def)
    next
      assume "\<exists>p. original_media_path fr1 = Some p \<and> p \<noteq> []"
      then obtain p where "original_media_path fr1 = Some p" and "p \<noteq> []" by blast
      with fc show ?thesis by (cases rule: finally_clause_cases) auto
    qed
    from fr show "fin \<noteq> None \<longrightarrow> remove_source_res sc \<noteq> None"
    proof
      assume "original_media_path fr1 = None"
      with fc show ?thesis by (simp add: finally_clause_None)
    next
      assume "\<exists>p. original_media_path fr1 = Some p \<and> p \<noteq> []"
      then obtain p where "original_media_path fr1 = Some p" and "p \<noteq> []" by blast
      with fc show ?thesis by (cases rule: finally_clause_cases) auto
    qed
  qed
  from fin obtain evs3 where e3: "trace w4 = trace w3 @ evs3" "status_events evs3 = []" by blast
  from ec show ?thesis
  proof (cases rule: except_clause_cases)
    case no_exception
    then show ?thesis by simp
  next
    case (not_caught e')
    with ex have "\<not> undisturbed sc" by auto
    moreover from not_caught unfold have "w' = w4"
      by (auto split: option.splits)
    ultimately show ?thesis using not_caught e3 by auto
  next
    case (reported e')
    then obtain evs2 where e2: "trace w3 = trace w2 @ evs2"
      "status_events evs2 = [EditText msg_stage_failed None]" by blast
    from reported unfold have w': "w' = w4"
      by (auto split: option.splits)
    from reported unfold fin_ok have "res = Returned \<or> \<not> undisturbed sc"
      by (auto simp: undisturbed_def status_ok_def split: option.splits)
    with w' e2 e3 show ?thesis
      by (auto simp: status_events_append)
  qed
qed

lemma handle_media_cases:
  assumes acc: "accepted upd" and hm: "handle_media sc upd w = (res, w')"
  obtains
    (acknowledged) evs where "trace w' = trace w @ evs"
      and "status_events evs = [ReplyText msg_ack]"
      and "\<not> undisturbed sc"
  | (failed_before_converting) evs where "trace w' = trace w @ evs"
      and "status_events evs = [ReplyText msg_ack, EditText msg_stage_failed None]"
      and "res = Returned \<or> \<not> undisturbed sc"
  | (converting) evs where "trace w' = trace w @ evs"
      and "status_events evs = [ReplyText msg_ack, EditText msg_converting None]"
      and "\<not> undisturbed sc"
  | (failed_after_converting) evs where "trace w' = trace w @ evs"
      and "status_events evs =
             [ReplyText msg_ack, EditText msg_converting None, EditText msg_stage_failed None]"
      and "res = Returned \<or> \<not> undisturbed sc"
  | (recognizing) evs where "trace w' = trace w @ evs"
      and "status_events evs =
             [ReplyText msg_ack, EditText msg_converting None, EditText msg_recognizing None]"
      and "\<not> undisturbed sc"
  | (final_edit_made) evs t where "trace w' = trace w @ evs"
      and "status_events evs =
             [ReplyText msg_ack, EditText msg_converting None, EditText msg_recognizing None,
              final_edit (Some t)]"
      and "t = [] \<longrightarrow> recognize_res sc = Inr []"
      and "res = Returned \<or> \<not> undisturbed sc"
proof (cases "reply_text_res sc")
  case (Some e)
  from handle_media_reply_failed [OF acc Some] hm
  have "w' = emit (ReplyText msg_ack) w" by simp
  moreover from Some have "\<not> undisturbed sc"
    by (simp add: undisturbed_def status_ok_def)
  ultimately show ?thesis
    by (intro acknowledged [of "[ReplyText msg_ack]"]) (auto simp: world_simps status_events_def)
next
  case rp: None
  let ?fr0 = "\<lparr>temp_file_path = None, original_media_path = None\<rparr>"
  let ?w1 = "emit (ReplyText msg_ack) w"
  let ?k = "kind_of upd" and ?u = "effective_user_id upd" and ?c = "effective_chat_id upd"
  obtain r fr1 w2 where tb: "try_body sc ?k ?u ?c ?fr0 ?w1 = (r, fr1, w2)"
    by (cases "try_body sc ?k ?u ?c ?fr0 ?w1")
  have before:
    "r = Some e \<Longrightarrow>
     original_media_path fr1 = None \<or> (\<exists>p. original_media_path fr1 = Some p \<and> p \<noteq> []) \<Longrightarrow>
     is_Exception e \<or> \<not> undisturbed sc \<Longrightarrow>
     trace w2 = trace ?w1 @ evs1 \<Longrightarrow> status_events evs1 = [] \<Longrightarrow> thesis" for e evs1
  proof -
    assume r: "r = Some e"
      and fr: "original_media_path fr1 = None \<or> (\<exists>p. original_media_path fr1 = Some p \<and> p \<noteq> [])"
      and ex: "is_Exception e \<or> \<not> undisturbed sc"
      and t1: "trace w2 = trace ?w1 @ evs1" and s1: "status_events evs1 = []"
    from failure_path [OF acc rp tb [unfolded r] hm fr ex]
    obtain evs where e: "trace w' = trace w2 @ evs"
      and d: "status_events evs = [] \<and> \<not> undisturbed sc
              \<or> status_events evs = [EditText msg_stage_failed None]
                 \<and> (res = Returned \<or> \<not> undisturbed sc)"
      by blast
    from e t1 have tr: "trace w' = trace w @ ([ReplyText msg_ack] @ evs1 @ evs)"
      by (simp add: world_simps)
    from d show thesis
    proof
      assume "status_events evs = [] \<and> \<not> undisturbed sc"
      with s1 tr show thesis
        by (intro acknowledged [of "[ReplyText msg_ack] @ evs1 @ evs"])
          (auto simp: status_events_append, simp add: status_events_def)
    next
      assume "status_events evs = [EditText msg_stage_failed None]
                 \<and> (res = Returned \<or> \<not> undisturbed sc)"
      with s1 tr show thesis
        by (intro failed_before_converting [of "[ReplyText msg_ack] @ evs1 @ evs"])
          (auto simp: status_events_append, simp_all add: status_events_def)
    qed
  qed
  have after:
    "r = Some e \<Longrightarrow>
     \<exists>p. original_media_path fr1 = Some p \<and> p \<noteq> [] \<Longrightarrow>
     is_Exception e \<or> \<not> undisturbed sc \<Longrightarrow>
     trace w2 = trace ?w1 @ evs1 \<Longrightarrow> status_events evs1 = [EditText msg_converting None] \<Longrightarrow>
     thesis" for e evs1
  proof -
    assume r: "r = Some e"
      and fr: "\<exists>p. original_media_path fr1 = Some p \<and> p \<noteq> []"
      and ex: "is_Exception e \<or> \<not> undisturbed sc"
      and t1: "trace w2 = trace ?w1 @ evs1"
      and s1: "status_events evs1 = [EditText msg_converting None]"
    from fr have fr': "original_media_path fr1 = None
        \<or> (\<exists>p. original_media_path fr1 = Some p \<and> p \<noteq> [])" by blast
    from failure_path [OF acc rp tb [unfolded r] hm fr' ex]
    obtain evs where e: "trace w' = trace w2 @ evs"
      and d: "status_events evs = [] \<and> \<not> undisturbed sc
              \<or> status_events evs = [EditText msg_stage_failed None]
                 \<and> (res = Returned \<or> \<not> undisturbed sc)"
      by blast
    from e t1 have tr: "trace w' = trace w @ ([ReplyText msg_ack] @ evs1 @ evs)"
      by (simp add: world_simps)
    from d show thesis
    proof
      assume "status_events evs = [] \<and> \<not> undisturbed sc"
      with s1 tr show thesis
        by (intro converting [of "[ReplyText msg_ack] @ evs1 @ evs"])
          (auto simp: status_events_append, simp add: status_events_def)
    next
      assume "status_events evs = [EditText msg_stage_failed None]
                 \<and> (res = Returned \<or> \<not> undisturbed sc)"
      with s1 tr show thesis
        by (intro failed_after_converting [of "[ReplyText msg_ack] @ evs1 @ evs"])
          (auto simp: status_events_append, simp_all add: status_events_def)
    qed
  qed
  from tb show ?thesis
  proof (cases rule: try_body_cases)
    case (setup_failed e)
    then obtain evs1 where "trace w2 = trace ?w1 @ evs1" and "status_events evs1 = []" by blast
    moreover from setup_failed have "original_media_path fr1 = None" by simp
    moreover from setup_failed have "is_Exception e \<or> \<not> undisturbed sc"
      by (cases e) (auto simp: undisturbed_def no_base_exception_def)
    ultimately show ?thesis using setup_failed(1) by (intro before [of e evs1]) auto
  next
    case (download_failed e)
    then obtain evs1 where "trace w2 = trace ?w1 @ evs1" and "status_events evs1 = []" by blast
    moreover from download_failed have "\<exists>p. original_media_path fr1 = Some p \<and> p \<noteq> []"
      by (simp add: original_path_not_Nil)
    moreover from download_failed have "is_Exception e \<or> \<not> undisturbed sc"
      by (cases e) (auto simp: undisturbed_def no_base_exception_def)
    ultimately show ?thesis using download_failed(1) by (intro before [of e evs1]) auto
  next
    case (converting_edit_failed e)
    then obtain evs1 where "trace w2 = trace ?w1 @ evs1"
      and "status_events evs1 = [EditText msg_converting None]" by blast
    moreover from converting_edit_failed
    have "\<exists>p. original_media_path fr1 = Some p \<and> p \<noteq> []"
      by (simp add: original_path_not_Nil)
    moreover from converting_edit_failed have "is_Exception e \<or> \<not> undisturbed sc"
      by (auto simp: undisturbed_def status_ok_def)
    ultimately show ?thesis using converting_edit_failed(1) by (intro after [of e evs1]) auto
  next
    case (convert_failed e)
    then obtain evs1 where "trace w2 = trace ?w1 @ evs1"
      and "status_events evs1 = [EditText msg_converting None]" by blast
    moreover from convert_failed have "\<exists>p. original_media_path fr1 = Some p \<and> p \<noteq> []"
      by (simp add: original_path_not_Nil)
    moreover from convert_failed have "is_Exception e \<or> \<not> undisturbed sc"
      by (cases e) (auto simp: undisturbed_def no_base_exception_def)
    ultimately show ?thesis using convert_failed(1) by (intro after [of e evs1]) auto
  next
    case converted
    then obtain evs1 where t1: "trace w2 = trace ?w1 @ evs1"
      and s1: "status_events evs1 = [EditText msg_converting None]" by blast
    from converted have ec: "except_clause sc r w2 = (Continue, w2)"
      by (simp add: except_clause_def)
    obtain fin w4 where fc: "finally_clause sc fr1 w2 = (fin, w4)"
      by (cases "finally_clause sc fr1 w2")
    from handle_media_accepted [OF acc rp tb ec fc] hm
    have unfold: "(res, w') =
       (case fin of
          Some d \<Rightarrow> (Raised (OSError d), w4)
        | None \<Rightarrow> recognize_and_report sc fr1 w4)"
      by (simp split: option.splits)
    from converted
    have orig: "original_media_path fr1 = Some (original_path ?k ?u (time_now sc))"
      and temp: "temp_file_path fr1 = Some (wav_path ?k ?u (time_now sc))"
      by simp_all
    from fc orig original_path_not_Nil show ?thesis
    proof (cases rule: finally_clause_cases)
      case (remove_failed d)
      then obtain evs3 where e3: "trace w4 = trace w2 @ evs3" "status_events evs3 = []" by blast
      from remove_failed unfold have "w' = w4" by simp
      with t1 e3 have "trace w' = trace w @ ([ReplyText msg_ack] @ evs1 @ evs3)"
        by (simp add: world_simps)
      moreover from remove_failed have "\<not> undisturbed sc" by (simp add: undisturbed_def)
      ultimately show ?thesis using s1 e3
        by (intro converting [of "[ReplyText msg_ack] @ evs1 @ evs3"])
          (auto simp: status_events_append, simp add: status_events_def)
    next
      case removed
      then obtain evs3 where e3: "trace w4 = trace w2 @ evs3" "status_events evs3 = []" by blast
      from removed unfold have rr: "recognize_and_report sc fr1 w4 = (res, w')" by simp
      from rr temp show ?thesis
      proof (cases rule: recognize_and_report_cases)
        case (edit_failed e)
        then obtain evs4 where e4: "trace w' = trace w4 @ evs4"
          "status_events evs4 = [EditText msg_recognizing None]" by blast
        from t1 e3 e4 have "trace w' = trace w @ ([ReplyText msg_ack] @ evs1 @ evs3 @ evs4)"
          by (simp add: world_simps)
        moreover from edit_failed have "\<not> undisturbed sc"
          by (simp add: undisturbed_def status_ok_def)
        ultimately show ?thesis using s1 e3 e4
          by (intro recognizing [of "[ReplyText msg_ack] @ evs1 @ evs3 @ evs4"])
            (auto simp: status_events_append, simp add: status_events_def)
      next
        case (not_caught e)
        then obtain evs4 where e4: "trace w' = trace w4 @ evs4"
          "status_events evs4 = [EditText msg_recognizing None]" by blast
        from t1 e3 e4 have "trace w' = trace w @ ([ReplyText msg_ack] @ evs1 @ evs3 @ evs4)"
          by (simp add: world_simps)
        moreover from not_caught have "\<not> undisturbed sc"
          by (simp add: undisturbed_def no_base_exception_def)
        ultimately show ?thesis using s1 e3 e4
          by (intro recognizing [of "[ReplyText msg_ack] @ evs1 @ evs3 @ evs4"])
            (auto simp: status_events_append, simp add: status_events_def)
      next
        case (reported t)
        then obtain evs4 where e4: "trace w' = trace w4 @ evs4"
          "status_events evs4 = [EditText msg_recognizing None, final_edit (Some t)]" by blast
        from t1 e3 e4 have "trace w' = trace w @ ([ReplyText msg_ack] @ evs1 @ evs3 @ evs4)"
          by (simp add: world_simps)
        moreover from reported have "res = Returned \<or> \<not> undisturbed sc"
          by (auto simp: undisturbed_def status_ok_def split: option.splits)
        ultimately show ?thesis using s1 e3 e4 reported(3)
          by (intro final_edit_made [of "[ReplyText msg_ack] @ evs1 @ evs3 @ evs4" t])
            (auto simp: status_events_append, simp_all add: status_events_def)
      qed
    qed
  qed
qed

subsection \<open>Runs in which the stages succeed\<close>

lemma try_body_converted:
  assumes "makedirs_res sc = None" and "send_chat_action_res sc = None"
    and "get_file_res sc = None" and "download_res sc = None"
    and "edit_converting_res sc = None" and "convert_res sc = None"
  shows "try_body sc k u c fr w =
    (None,
     fr\<lparr>temp_file_path := Some (wav_path k u (time_now sc)),
        original_media_path := Some (original_path k u (time_now sc))\<rparr>,
     w\<lparr>files := insert (wav_path k u (time_now sc))
                  (insert (original_path k u (time_now sc)) (files w)),
       trace := trace w @
         [MakeDirs TEMP_MEDIA_DIR, SendChatAction c (chat_action_of k), GetFile k,
          DownloadToDrive (original_path k u (time_now sc)),
          Log INFO (log_downloaded_prefix @ original_path k u (time_now sc)),
          EditText msg_converting None,
          ConvertSync (original_path k u (time_now sc)) (source_format k)
            (wav_path k u (time_now sc)),
          Log INFO (log_converted_prefix @ wav_path k u (time_now sc))]\<rparr>)"
  using assms
  by (simp add: try_body_def Let_def emit_def logger_def add_file_def)

lemma try_body_converting_edit_fails:
  assumes "makedirs_res sc = None" and "send_chat_action_res sc = None"
    and "get_file_res sc = None" and "download_res sc = None"
    and "edit_converting_res sc = Some e"
  shows "try_body sc k u c fr w =
    (Some e,
     fr\<lparr>temp_file_path := Some (wav_path k u (time_now sc)),
        original_media_path := Some (original_path k u (time_now sc))\<rparr>,
     w\<lparr>files := insert (original_path k u (time_now sc)) (files w),
       trace := trace w @
         [MakeDirs TEMP_MEDIA_DIR, SendChatAction c (chat_action_of k), GetFile k,
          DownloadToDrive (original_path k u (time_now sc)),
          Log INFO (log_downloaded_prefix @ original_path k u (time_now sc)),
          EditText msg_converting None]\<rparr>)"
  using assms
  by (simp add: try_body_def Let_def emit_def logger_def add_file_def)

lemma try_body_download_fails:
  assumes "makedirs_res sc = None" and "send_chat_action_res sc = None"
    and "get_file_res sc = None" and "download_res sc = Some e"
    and "\<not> download_leaves_file sc"
  shows "try_body sc k u c fr w =
    (Some e,
     fr\<lparr>temp_file_path := Some (wav_path k u (time_now sc)),
        original_media_path := Some (original_path k u (time_now sc))\<rparr>,
     w\<lparr>trace := trace w @
         [MakeDirs TEMP_MEDIA_DIR, SendChatAction c (chat_action_of k), GetFile k,
          DownloadToDrive (original_path k u (time_now sc))]\<rparr>)"
  using assms
  by (simp add: try_body_def Let_def emit_def logger_def add_file_def)

lemma finally_clause_removes:
  assumes "original_media_path fr = Some p" and "p \<noteq> []" and "p \<in> files w"
    and "remove_source_res sc = None"
  shows "finally_clause sc fr w =
    (None, w\<lparr>files := files w - {p}, trace := trace w @ [Remove p]\<rparr>)"
  using assms
  by (simp add: finally_clause_def os_remove_def path_exists_def Let_def emit_def)

lemma finally_clause_absent:
  assumes "original_media_path fr = Some p" and "p \<notin> files w"
  shows "finally_clause sc fr w = (None, w)"
  using assms
  by (simp add: finally_clause_def path_exists_def)

lemma handle_media_unfold:
  assumes "accepted upd"
  shows "handle_media sc upd w =
    (let w1 = emit (ReplyText msg_ack) w in
     case reply_text_res sc of Some e \<Rightarrow> (Raised e, w1) | None \<Rightarrow>
    (let fr0 = \<lparr>temp_file_path = None, original_media_path = None\<rparr>;
         (r, fr1, w2) =
            try_body sc (kind_of upd) (effective_user_id upd) (effective_chat_id upd) fr0 w1;
         (pend, w3) = except_clause sc r w2;
         (fin, w4) = finally_clause sc fr1 w3
     in case fin of
          Some d \<Rightarrow> (Raised (OSError d), w4)
        | None \<Rightarrow>
           (case pend of
              Raise e \<Rightarrow> (Raised e, w4)
            | Return \<Rightarrow> (Returned, w4)
            | Continue \<Rightarrow> recognize_and_report sc fr1 w4)))"
  using assms
  by (auto simp: handle_media_def accepted_def kind_of_def Let_def split: option.splits)

lemma handle_media_converted:
  assumes "accepted upd" and "reply_text_res sc = None" and "makedirs_res sc = None"
    and "send_chat_action_res sc = None" and "get_file_res sc = None"
    and "download_res sc = None" and "edit_converting_res sc = None"
    and "convert_res sc = None" and "remove_source_res sc = None"
  shows "handle_media sc upd w =
    recognize_and_report sc
      \<lparr>temp_file_path = Some (wav_path (kind_of upd) (effective_user_id upd) (time_now sc)),
       original_media_path =
         Some (original_path (kind_of upd) (effective_user_id upd) (time_now sc))\<rparr>
      (converted_world sc upd w)"
  using assms
  by (simp add: handle_media_unfold try_body_converted except_clause_def
      finally_clause_removes original_path_not_Nil Let_def emit_def converted_world_def
      insert_Diff_if wav_path_not_original_path)

subsection \<open>Status reports\<close>

lemma final_report_is_status: "is_final_report ev \<Longrightarrow> is_status ev"
  by (cases ev) simp_all

lemma final_reports_status: "final_reports (status_events evs) = final_reports evs"
  by (induction evs) (auto simp: final_reports_def status_events_def dest: final_report_is_status)

lemma final_reports_via_status:
  assumes "status_events evs = ss"
  shows "final_reports evs = final_reports ss"
proof -
  have "final_reports evs = final_reports (status_events evs)"
    by (simp add: final_reports_status)
  with assms show ?thesis by simp
qed

lemma reply_not_final: "\<not> is_final_report (ReplyText t)"
  by simp

lemma converting_not_final: "\<not> is_final_report (EditText msg_converting pm)"
  by (simp add: msg_converting_def msg_stage_failed_def msg_no_result_def)

lemma recognizing_not_final: "\<not> is_final_report (EditText msg_recognizing pm)"
  by (simp add: msg_recognizing_def msg_stage_failed_def msg_no_result_def)

lemma stage_failed_final: "is_final_report (EditText msg_stage_failed pm)"
  by simp

lemma final_edit_final: "is_final_report (final_edit r)"
  by (simp add: final_edit_def)

lemma no_result_final: "is_final_report (EditText msg_no_result pm)"
  by simp

lemma newlines_final: "is_final_report (EditText (CHR 0x0A # CHR 0x0A # t) pm)"
  by simp

lemmas final_report_facts =
  reply_not_final converting_not_final recognizing_not_final stage_failed_final final_edit_final
  no_result_final newlines_final

lemma phase_texts_distinct:
  "msg_converting \<noteq> msg_recognizing"
  "msg_converting \<noteq> msg_stage_failed"
  "msg_recognizing \<noteq> msg_stage_failed"
  "msg_no_result \<noteq> msg_converting"
  "msg_no_result \<noteq> msg_recognizing"
  "msg_no_result \<noteq> msg_stage_failed"
  by (simp_all add: msg_converting_def msg_recognizing_def msg_stage_failed_def msg_no_result_def)

lemma final_edit_not_phase:
  "final_edit r \<noteq> EditText msg_converting None"
  "final_edit r \<noteq> EditText msg_recognizing None"
  "final_edit r \<noteq> EditText msg_stage_failed None"
  using phase_texts_distinct by (simp_all add: final_edit_def)

lemma final_reports_prefix:
  "final_reports
     ([ReplyText a, MakeDirs b, SendChatAction c d, GetFile k, DownloadToDrive p, Log l1 s1,
       EditText msg_converting None, ConvertSync p f q, Log l2 s2, Remove p] @ evs)
   = final_reports evs"
  by (simp add: final_reports_def converting_not_final del: is_final_report.simps(1))

lemma status_events_distinct:
  assumes "accepted upd"
  shows "distinct (status_events (events_since w (snd (handle_media sc upd w))))"
proof -
  obtain res w' where hm: "handle_media sc upd w = (res, w')"
    by (cases "handle_media sc upd w")
  have "distinct (status_events (events_since w w'))"
    using assms hm
  proof (cases rule: handle_media_cases)
    case (acknowledged evs)
    from acknowledged(1) have "events_since w w' = evs" by (rule events_since_append)
    with acknowledged(2) show ?thesis by simp
  next
    case (failed_before_converting evs)
    from failed_before_converting(1) have "events_since w w' = evs" by (rule events_since_append)
    with failed_before_converting(2) show ?thesis by simp
  next
    case (converting evs)
    from converting(1) have "events_since w w' = evs" by (rule events_since_append)
    with converting(2) show ?thesis by simp
  next
    case (failed_after_converting evs)
    from failed_after_converting(1) have "events_since w w' = evs" by (rule events_since_append)
    with failed_after_converting(2) show ?thesis by (simp add: phase_texts_distinct)
  next
    case (recognizing evs)
    from recognizing(1) have "events_since w w' = evs" by (rule events_since_append)
    with recognizing(2) show ?thesis by (simp add: phase_texts_distinct)
  next
    case (final_edit_made evs t)
    from final_edit_made(1) have "events_since w w' = evs" by (rule events_since_append)
    with final_edit_made(2) show ?thesis
      using final_edit_not_phase [of "Some t"]
      by (simp add: phase_texts_distinct) (simp add: final_edit_def split: if_splits)
  qed
  with hm show ?thesis by simp
qed

lemma fallback_only_for_empty_transcript:
  assumes "accepted upd"
    and "EditText msg_no_result None \<in> set (events_since w (snd (handle_media sc upd w)))"
  shows "recognize_res sc = Inr []"
proof -
  obtain res w' where hm: "handle_media sc upd w = (res, w')"
    by (cases "handle_media sc upd w")
  with assms(2) have mem: "EditText msg_no_result None \<in> set (events_since w w')" by simp
  have st: "EditText msg_no_result None \<in> set (status_events evs)"
    if "events_since w w' = evs" for evs
    using mem that by (simp add: status_events_def)
  from assms(1) hm show ?thesis
  proof (cases rule: handle_media_cases)
    case (acknowledged evs)
    from acknowledged(1) have "events_since w w' = evs" by (rule events_since_append)
    from st [OF this] acknowledged(2) show ?thesis by simp
  next
    case (failed_before_converting evs)
    from failed_before_converting(1) have "events_since w w' = evs" by (rule events_since_append)
    from st [OF this] failed_before_converting(2) show ?thesis
      by (simp add: phase_texts_distinct)
  next
    case (converting evs)
    from converting(1) have "events_since w w' = evs" by (rule events_since_append)
    from st [OF this] converting(2) show ?thesis by (simp add: phase_texts_distinct)
  next
    case (failed_after_converting evs)
    from failed_after_converting(1) have "events_since w w' = evs" by (rule events_since_append)
    from st [OF this] failed_after_converting(2) show ?thesis
      by (simp add: phase_texts_distinct)
  next
    case (recognizing evs)
    from recognizing(1) have "events_since w w' = evs" by (rule events_since_append)
    from st [OF this] recognizing(2) show ?thesis by (simp add: phase_texts_distinct)
  next
    case (final_edit_made evs t)
    from final_edit_made(1) have "events_since w w' = evs" by (rule events_since_append)
    from st [OF this] final_edit_made(2)
    have "final_edit (Some t) = EditText msg_no_result None"
      by (simp add: phase_texts_distinct)
    then have "t = []"
      by (simp add: final_edit_def truthy_def split: if_splits)
    with final_edit_made(3) show ?thesis by simp
  qed
qed

lemma reply_failure_propagates:
  assumes "accepted upd"
  shows "handle_media (sc\<lparr>reply_text_res := Some e\<rparr>) upd w
           = (Raised e, emit (ReplyText msg_ack) w)"
  using assms by (simp add: handle_media_reply_failed)

lemma converting_failure_is_caught:
  assumes "accepted upd" and "stages_succeed sc" and "undisturbed sc" and "is_Exception e"
  shows "fst (handle_media (sc\<lparr>edit_converting_res := Some e\<rparr>) upd w) = Returned
    \<and> calls (events_since w (snd (handle_media (sc\<lparr>edit_converting_res := Some e\<rparr>) upd w))) =
        [ReplyText msg_ack, MakeDirs TEMP_MEDIA_DIR,
         SendChatAction (effective_chat_id upd) (chat_action_of (kind_of upd)),
         GetFile (kind_of upd),
         DownloadToDrive (original_path (kind_of upd) (effective_user_id upd) (time_now sc)),
         EditText msg_converting None, EditText msg_stage_failed None,
         Remove (original_path (kind_of upd) (effective_user_id upd) (time_now sc))]"
  using assms
  by (simp add: handle_media_unfold stages_succeed_def undisturbed_def status_ok_def
      try_body_converting_edit_fails except_clause_def finally_clause_removes
      original_path_not_Nil Let_def emit_def logger_def events_since_def calls_def)

lemma recognizing_failure_propagates:
  assumes "accepted upd" and "stages_succeed sc"
  shows "fst (handle_media (sc\<lparr>edit_recognizing_res := Some e\<rparr>) upd w) = Raised e
    \<and> calls (events_since w (snd (handle_media (sc\<lparr>edit_recognizing_res := Some e\<rparr>) upd w))) =
        [ReplyText msg_ack, MakeDirs TEMP_MEDIA_DIR,
         SendChatAction (effective_chat_id upd) (chat_action_of (kind_of upd)),
         GetFile (kind_of upd),
         DownloadToDrive (original_path (kind_of upd) (effective_user_id upd) (time_now sc)),
         EditText msg_converting None,
         ConvertSync (original_path (kind_of upd) (effective_user_id upd) (time_now sc))
           (source_format (kind_of upd))
           (wav_path (kind_of upd) (effective_user_id upd) (time_now sc)),
         Remove (original_path (kind_of upd) (effective_user_id upd) (time_now sc)),
         EditText msg_recognizing None]"
  using assms
  by (simp add: handle_media_converted stages_succeed_def recognize_and_report_def
      converted_world_def Let_def emit_def events_since_def calls_def)

lemma final_failure_propagates:
  assumes acc: "accepted upd" and ok: "stages_succeed sc" and und: "undisturbed sc"
  shows "fst (handle_media (sc\<lparr>edit_final_res := Some e\<rparr>) upd w) = Raised e"
proof -
  let ?sc = "sc\<lparr>edit_final_res := Some e\<rparr>"
  let ?wav = "wav_path (kind_of upd) (effective_user_id upd) (time_now ?sc)"
  let ?src = "original_path (kind_of upd) (effective_user_id upd) (time_now ?sc)"
  let ?fr = "\<lparr>temp_file_path = Some ?wav, original_media_path = Some ?src\<rparr>"
  from acc ok have hm: "handle_media ?sc upd w
      = recognize_and_report ?sc ?fr (converted_world ?sc upd w)"
    by (intro handle_media_converted) (simp_all add: stages_succeed_def)
  obtain res w' where rr: "recognize_and_report ?sc ?fr (converted_world ?sc upd w) = (res, w')"
    by (cases "recognize_and_report ?sc ?fr (converted_world ?sc upd w)")
  have temp: "temp_file_path ?fr = Some ?wav" by simp
  from rr temp have "res = Raised e"
  proof (cases rule: recognize_and_report_cases)
    case (edit_failed e')
    with ok show ?thesis by (simp add: stages_succeed_def)
  next
    case (not_caught e')
    with und show ?thesis by (simp add: undisturbed_def no_base_exception_def)
  next
    case (reported t)
    then show ?thesis by simp
  qed
  with hm rr show ?thesis by simp
qed

lemma failure_report_failure_propagates:
  assumes acc: "accepted upd" and ok: "stages_succeed sc" and e': "is_Exception e'"
  shows "fst (handle_media (sc\<lparr>download_res := Some e', edit_failure_res := Some e\<rparr>) upd w)
           = Raised e"
proof -
  let ?sc = "sc\<lparr>download_res := Some e', edit_failure_res := Some e\<rparr>"
  let ?k = "kind_of upd" and ?u = "effective_user_id upd" and ?c = "effective_chat_id upd"
  let ?fr0 = "\<lparr>temp_file_path = None, original_media_path = None\<rparr>"
  let ?fr1 = "?fr0\<lparr>temp_file_path := Some (wav_path ?k ?u (time_now ?sc)),
                     original_media_path := Some (original_path ?k ?u (time_now ?sc))\<rparr>"
  from ok have rp: "reply_text_res ?sc = None" and rs: "remove_source_res ?sc = None"
    by (simp_all add: stages_succeed_def)
  from ok obtain w2 where
    tb: "try_body ?sc ?k ?u ?c ?fr0 (emit (ReplyText msg_ack) w) = (Some e', ?fr1, w2)"
    by (simp add: try_body_def Let_def stages_succeed_def)
  from e' obtain w3 where ec: "except_clause ?sc (Some e') w2 = (Raise e, w3)"
    by (simp add: except_clause_def Let_def)
  obtain fin w4 where fc: "finally_clause ?sc ?fr1 w3 = (fin, w4)"
    by (cases "finally_clause ?sc ?fr1 w3")
  have "original_media_path ?fr1 \<noteq> Some []"
    by (simp add: original_path_not_Nil)
  from finally_clause_files [OF rs this, of w3] fc have "fin = None" by simp
  with handle_media_accepted [OF acc rp tb ec fc] show ?thesis by simp
qed

text \<open>
  Claim C3 as stated fails. No final edit of the status message is made when the edit of
  line 152 raises, when the removal of the source file in the \<^verbatim>\<open>finally\<close> clause raises,
  or when a collaborator raises outside \<^verbatim>\<open>Exception\<close>: the exception leaves the handler
  before line 144 or line 157 is reached.
\<close>

theorem no_final_report_counterexample:
  "final_reports (events_since empty_storage
      (snd (handle_media (all_succeed\<lparr>edit_recognizing_res := Some edit_refused\<rparr>)
              voice_request empty_storage))) = []
   \<and> final_reports (events_since empty_storage
      (snd (handle_media (all_succeed\<lparr>remove_source_res := Some permission_denied\<rparr>)
              voice_request empty_storage))) = []
   \<and> final_reports (events_since empty_storage
      (snd (handle_media (all_succeed\<lparr>download_res := Some cancelled\<rparr>)
              voice_request empty_storage))) = []"
  by (simp add: run_defs request_defs cancelled_def wav_path_not_original_path
      original_path_not_Nil events_since_def final_reports_def final_report_facts
      del: is_final_report.simps(1))

text \<open>
  Claim C3, amended. An accepted request never gets two final edits of the status
  message. It gets exactly one, and the handler returns, when the request is
  undisturbed: every status operation succeeds, the source file can be removed, and no
  collaborator raises outside \<^verbatim>\<open>Exception\<close>. The final edit is the failure text of
  line 144, the text of line 157, or the fallback text of line 160.
\<close>

theorem one_final_report_when_undisturbed:
  assumes "accepted upd"
  shows "length (final_reports (events_since w (snd (handle_media sc upd w)))) \<le> 1
       \<and> (undisturbed sc \<longrightarrow>
            fst (handle_media sc upd w) = Returned
            \<and> length (final_reports (events_since w (snd (handle_media sc upd w)))) = 1)"
proof -
  obtain res w' where hm: "handle_media sc upd w = (res, w')"
    by (cases "handle_media sc upd w")
  have "length (final_reports (events_since w w')) \<le> 1
       \<and> (undisturbed sc \<longrightarrow> res = Returned \<and> length (final_reports (events_since w w')) = 1)"
    using assms hm
  proof (cases rule: handle_media_cases)
    case (acknowledged evs)
    from acknowledged(1) have "events_since w w' = evs" by (rule events_since_append)
    moreover from final_reports_via_status [OF acknowledged(2)]
    have "final_reports evs = []"
      by (simp add: final_reports_def final_report_facts del: is_final_report.simps(1))
    ultimately show ?thesis using acknowledged(3) by auto
  next
    case (failed_before_converting evs)
    from failed_before_converting(1) have "events_since w w' = evs" by (rule events_since_append)
    moreover from final_reports_via_status [OF failed_before_converting(2)]
    have "final_reports evs = [EditText msg_stage_failed None]"
      by (simp add: final_reports_def final_report_facts del: is_final_report.simps(1))
    ultimately show ?thesis using failed_before_converting(3) by auto
  next
    case (converting evs)
    from converting(1) have "events_since w w' = evs" by (rule events_since_append)
    moreover from final_reports_via_status [OF converting(2)]
    have "final_reports evs = []"
      by (simp add: final_reports_def final_report_facts del: is_final_report.simps(1))
    ultimately show ?thesis using converting(3) by auto
  next
    case (failed_after_converting evs)
    from failed_after_converting(1) have "events_since w w' = evs" by (rule events_since_append)
    moreover from final_reports_via_status [OF failed_after_converting(2)]
    have "final_reports evs = [EditText msg_stage_failed None]"
      by (simp add: final_reports_def final_report_facts del: is_final_report.simps(1))
    ultimately show ?thesis using failed_after_converting(3) by auto
  next
    case (recognizing evs)
    from recognizing(1) have "events_since w w' = evs" by (rule events_since_append)
    moreover from final_reports_via_status [OF recognizing(2)]
    have "final_reports evs = []"
      by (simp add: final_reports_def final_report_facts del: is_final_report.simps(1))
    ultimately show ?thesis using recognizing(3) by auto
  next
    case (final_edit_made evs t)
    from final_edit_made(1) have "events_since w w' = evs" by (rule events_since_append)
    moreover from final_reports_via_status [OF final_edit_made(2)]
    have "final_reports evs = [final_edit (Some t)]"
      by (simp add: final_reports_def final_report_facts del: is_final_report.simps(1))
    ultimately show ?thesis using final_edit_made(4) by auto
  qed
  with hm show ?thesis by simp
qed

theorem one_final_report_witness:
  "accepted voice_request \<and> undisturbed all_succeed
   \<and> length (final_reports (events_since empty_storage
         (snd (handle_media all_succeed voice_request empty_storage)))) \<le> 1
   \<and> fst (handle_media all_succeed voice_request empty_storage) = Returned
   \<and> length (final_reports (events_since empty_storage
         (snd (handle_media all_succeed voice_request empty_storage)))) = 1"
proof -
  have h1: "accepted voice_request"
    by (simp add: accepted_def voice_request_def)
  have h2: "undisturbed all_succeed"
    by (simp add: undisturbed_def status_ok_def no_base_exception_def all_succeed_def)
  show ?thesis
    using h1 h2
      one_final_report_when_undisturbed [OF h1, where w = empty_storage and sc = all_succeed]
    by simp
qed

text \<open>
  Claim C5 as stated fails. When the edit of line 152 raises, nothing catches the
  exception: it leaves the handler, and the recogniser stage is never called.
\<close>

theorem status_failure_propagates_counterexample:
  "fst (handle_media (all_succeed\<lparr>edit_recognizing_res := Some edit_refused\<rparr>)
          voice_request empty_storage) = Raised edit_refused
   \<and> Recognize (wav_path Voice 42 1700000000) ''ru-RU''
       \<notin> set (trace (snd (handle_media (all_succeed\<lparr>edit_recognizing_res := Some edit_refused\<rparr>)
                            voice_request empty_storage)))"
  by (simp add: run_defs request_defs wav_path_not_original_path original_path_not_Nil)

text \<open>
  Claim C5, amended. No status operation is ever made twice for one request. A failed
  status operation is not swallowed. Take a request on which every stage succeeds and
  every status operation would succeed, and let one status operation raise \<open>e\<close>
  instead:
  \<^item> the reply of line 103: the handler raises \<open>e\<close> and has done nothing else;
  \<^item> the edit of line 133, with \<open>e\<close> an \<^verbatim>\<open>Exception\<close>: the \<^verbatim>\<open>except\<close> clause of line 142
    catches it, so the conversion and the recognition are skipped, the failure text is
    reported, the source file is removed and the handler returns;
  \<^item> the edit of line 152: the handler raises \<open>e\<close> after the source file is removed
    and before the recogniser stage is called;
  \<^item> the final edit of line 157 or 160: the handler raises \<open>e\<close>;
  \<^item> the failure report of line 144, after a download that raised an \<^verbatim>\<open>Exception\<close>:
    the handler raises \<open>e\<close>.
\<close>

theorem status_failure_is_not_swallowed:
  assumes "accepted upd" and "stages_succeed sc" and "undisturbed sc"
  shows "handle_media (sc\<lparr>reply_text_res := Some e\<rparr>) upd w
           = (Raised e, emit (ReplyText msg_ack) w)
    \<and> (is_Exception e \<longrightarrow>
         fst (handle_media (sc\<lparr>edit_converting_res := Some e\<rparr>) upd w) = Returned
         \<and> calls (events_since w
               (snd (handle_media (sc\<lparr>edit_converting_res := Some e\<rparr>) upd w))) =
             [ReplyText msg_ack, MakeDirs TEMP_MEDIA_DIR,
              SendChatAction (effective_chat_id upd) (chat_action_of (kind_of upd)),
              GetFile (kind_of upd),
              DownloadToDrive
                (original_path (kind_of upd) (effective_user_id upd) (time_now sc)),
              EditText msg_converting None, EditText msg_stage_failed None,
              Remove (original_path (kind_of upd) (effective_user_id upd) (time_now sc))])
    \<and> fst (handle_media (sc\<lparr>edit_recognizing_res := Some e\<rparr>) upd w) = Raised e
    \<and> calls (events_since w
          (snd (handle_media (sc\<lparr>edit_recognizing_res := Some e\<rparr>) upd w))) =
        [ReplyText msg_ack, MakeDirs TEMP_MEDIA_DIR,
         SendChatAction (effective_chat_id upd) (chat_action_of (kind_of upd)),
         GetFile (kind_of upd),
         DownloadToDrive (original_path (kind_of upd) (effective_user_id upd) (time_now sc)),
         EditText msg_converting None,
         ConvertSync (original_path (kind_of upd) (effective_user_id upd) (time_now sc))
           (source_format (kind_of upd))
           (wav_path (kind_of upd) (effective_user_id upd) (time_now sc)),
         Remove (original_path (kind_of upd) (effective_user_id upd) (time_now sc)),
         EditText msg_recognizing None]
    \<and> fst (handle_media (sc\<lparr>edit_final_res := Some e\<rparr>) upd w) = Raised e
    \<and> (is_Exception e' \<longrightarrow>
         fst (handle_media (sc\<lparr>download_res := Some e', edit_failure_res := Some e\<rparr>) upd w)
           = Raised e)
    \<and> distinct (status_events (events_since w (snd (handle_media sc' upd w))))"
  using assms
    reply_failure_propagates [where upd = upd and sc = sc and e = e and w = w]
    converting_failure_is_caught [where upd = upd and sc = sc and e = e and w = w]
    recognizing_failure_propagates [where upd = upd and sc = sc and e = e and w = w]
    final_failure_propagates [where upd = upd and sc = sc and e = e and w = w]
    failure_report_failure_propagates
      [where upd = upd and sc = sc and e = e and e' = e' and w = w]
    status_events_distinct [where upd = upd and sc = sc' and w = w]
  by blast

theorem status_failure_is_not_swallowed_witness:
  "accepted voice_request \<and> stages_succeed all_succeed \<and> undisturbed all_succeed
   \<and> handle_media (all_succeed\<lparr>reply_text_res := Some edit_refused\<rparr>)
        voice_request empty_storage
       = (Raised edit_refused, emit (ReplyText msg_ack) empty_storage)
   \<and> is_Exception edit_refused
   \<and> fst (handle_media (all_succeed\<lparr>edit_converting_res := Some edit_refused\<rparr>)
            voice_request empty_storage) = Returned
   \<and> fst (handle_media (all_succeed\<lparr>edit_recognizing_res := Some edit_refused\<rparr>)
            voice_request empty_storage) = Raised edit_refused
   \<and> fst (handle_media (all_succeed\<lparr>edit_final_res := Some edit_refused\<rparr>)
            voice_request empty_storage) = Raised edit_refused
   \<and> is_Exception disk_full
   \<and> fst (handle_media
            (all_succeed\<lparr>download_res := Some disk_full, edit_failure_res := Some edit_refused\<rparr>)
            voice_request empty_storage) = Raised edit_refused
   \<and> distinct (status_events (events_since empty_storage
         (snd (handle_media all_succeed voice_request empty_storage))))"
proof -
  have h1: "accepted voice_request"
    by (simp add: accepted_def voice_request_def)
  have h2: "stages_succeed all_succeed"
    by (simp add: stages_succeed_def all_succeed_def)
  have h3: "undisturbed all_succeed"
    by (simp add: undisturbed_def status_ok_def no_base_exception_def all_succeed_def)
  have h4: "is_Exception edit_refused" "is_Exception disk_full"
    by (simp_all add: edit_refused_def disk_full_def)
  show ?thesis
    using h1 h2 h3 h4
      status_failure_is_not_swallowed
        [OF h1 h2 h3, where e = edit_refused and w = empty_storage and e' = disk_full
          and sc' = all_succeed]
    by simp
qed

text \<open>
  Claim C10 as stated fails for an empty transcript: the recogniser stage returns the
  empty string, which the test of line 156 takes as false, and the handler reports the
  fallback text of line 160.
\<close>

theorem empty_transcript_counterexample:
  "fst (transcribe_voice (all_succeed\<lparr>recognize_res := Inr []\<rparr>)
          (wav_path Voice 42 1700000000) storage_with_wav) = Inr (Some [])
   \<and> final_reports (events_since empty_storage
        (snd (handle_media (all_succeed\<lparr>recognize_res := Inr []\<rparr>)
                voice_request empty_storage)))
       = [EditText msg_no_result None]"
  by (simp add: run_defs request_defs wav_path_not_original_path original_path_not_Nil
      events_since_def final_reports_def final_report_facts
      del: is_final_report.simps(1))

text \<open>
  Claim C10, amended. The recogniser stage never returns \<^verbatim>\<open>None\<close>. It returns the empty
  string only when the file exists and the provider's transcript is empty: every other
  branch returns a fixed text that is not empty, and a successful recognition returns
  the provider's transcript as it is. The handler reports the fallback text of line
  160 only when the provider's transcript is empty.
\<close>

theorem recognizer_never_returns_None:
  "fst (transcribe_voice sc file_path w) \<noteq> Inr None
   \<and> (fst (transcribe_voice sc file_path w) = Inr (Some [])
        \<longrightarrow> path_exists file_path w \<and> recognize_res sc = Inr [])
   \<and> (path_exists file_path w \<and> recognize_res sc = Inr t
        \<longrightarrow> fst (transcribe_voice sc file_path w) = Inr (Some t))
   \<and> (accepted upd
        \<and> EditText msg_no_result None \<in> set (events_since w' (snd (handle_media sc upd w')))
        \<longrightarrow> recognize_res sc = Inr [])"
  using transcribe_voice_result [where sc = sc and p = file_path and w = w]
    fallback_only_for_empty_transcript [where upd = upd and w = w' and sc = sc]
  by blast

theorem recognizer_never_returns_None_witness:
  "fst (transcribe_voice (all_succeed\<lparr>recognize_res := Inr []\<rparr>)
          (wav_path Voice 42 1700000000) storage_with_wav) \<noteq> Inr None
   \<and> fst (transcribe_voice (all_succeed\<lparr>recognize_res := Inr []\<rparr>)
          (wav_path Voice 42 1700000000) storage_with_wav) = Inr (Some [])
   \<and> path_exists (wav_path Voice 42 1700000000) storage_with_wav
   \<and> recognize_res (all_succeed\<lparr>recognize_res := Inr []\<rparr>) = Inr []
   \<and> accepted voice_request
   \<and> EditText msg_no_result None
       \<in> set (events_since empty_storage
                 (snd (handle_media (all_succeed\<lparr>recognize_res := Inr []\<rparr>)
                         voice_request empty_storage)))"
proof -
  have h1: "path_exists (wav_path Voice 42 1700000000) storage_with_wav"
    by (simp add: path_exists_def storage_with_wav_def)
  have h2: "recognize_res (all_succeed\<lparr>recognize_res := Inr []\<rparr>) = Inr []"
    by simp
  have h3: "accepted voice_request"
    by (simp add: accepted_def voice_request_def)
  have h4: "EditText msg_no_result None
       \<in> set (events_since empty_storage
                 (snd (handle_media (all_succeed\<lparr>recognize_res := Inr []\<rparr>)
                         voice_request empty_storage)))"
    by (simp add: run_defs request_defs wav_path_not_original_path original_path_not_Nil
        events_since_def)
  show ?thesis
    using h1 h2 h3 h4
      recognizer_never_returns_None
        [where sc = "all_succeed\<lparr>recognize_res := Inr []\<rparr>"
          and file_path = "wav_path Voice 42 1700000000" and w = storage_with_wav
          and t = "[]" and upd = voice_request and w' = empty_storage]
    by simp
qed

text \<open>
  Claim C4 as stated fails: the text of the final edit is not the transcript alone, it
  is the transcript after the two newline characters of the f-string of line 157.
\<close>

theorem transcript_not_verbatim_counterexample:
  "final_reports (events_since empty_storage
      (snd (handle_media all_succeed voice_request empty_storage)))
     = [EditText ([CHR 0x0A, CHR 0x0A] @ ''hello world'') (Some ''Markdown'')]
   \<and> [CHR 0x0A, CHR 0x0A] @ ''hello world'' \<noteq> ''hello world''"
  by (simp add: run_defs request_defs wav_path_not_original_path original_path_not_Nil
      events_since_def final_reports_def final_report_facts
      del: is_final_report.simps(1))

text \<open>
  Claim C4, amended. When every call up to the recognition succeeds and the provider
  returns a transcript that is not empty, such as \<^verbatim>\<open>hello world\<close>, the one final report
  of the request is an edit of the status message whose text is two newline characters
  followed by the transcript, with nothing else before or after, and whose parse mode
  is \<^verbatim>\<open>Markdown\<close>.
\<close>

theorem final_report_is_transcript_after_newlines:
  assumes acc: "accepted upd" and ok: "stages_succeed sc"
    and tr: "recognize_res sc = Inr t" and ne: "t \<noteq> []"
  shows "final_reports (events_since w (snd (handle_media sc upd w)))
           = [EditText ([CHR 0x0A, CHR 0x0A] @ t) (Some ''Markdown'')]"
proof -
  let ?wav = "wav_path (kind_of upd) (effective_user_id upd) (time_now sc)"
  let ?src = "original_path (kind_of upd) (effective_user_id upd) (time_now sc)"
  let ?fr = "\<lparr>temp_file_path = Some ?wav, original_media_path = Some ?src\<rparr>"
  let ?cw = "converted_world sc upd w"
  from acc ok have hm: "handle_media sc upd w = recognize_and_report sc ?fr ?cw"
    by (intro handle_media_converted) (simp_all add: stages_succeed_def)
  obtain res w' where rr: "recognize_and_report sc ?fr ?cw = (res, w')"
    by (cases "recognize_and_report sc ?fr ?cw")
  have temp: "temp_file_path ?fr = Some ?wav" by simp
  have present: "?wav \<in> files ?cw"
    by (simp add: converted_world_def wav_path_not_original_path)
  from rr temp
  have "\<exists>evs. trace w' = trace ?cw @ evs
          \<and> status_events evs = [EditText msg_recognizing None, final_edit (Some t)]"
  proof (cases rule: recognize_and_report_cases)
    case (edit_failed e)
    with ok show ?thesis by (simp add: stages_succeed_def)
  next
    case (not_caught e)
    with tr show ?thesis by simp
  next
    case (reported t')
    from reported(6) present tr have "t' = t" by simp
    with reported(5) show ?thesis by simp
  qed
  then obtain evs where e1: "trace w' = trace ?cw @ evs"
    and e2: "status_events evs = [EditText msg_recognizing None, final_edit (Some t)]"
    by blast
  let ?prefix = "[ReplyText msg_ack, MakeDirs TEMP_MEDIA_DIR,
       SendChatAction (effective_chat_id upd) (chat_action_of (kind_of upd)),
       GetFile (kind_of upd), DownloadToDrive ?src,
       Log INFO (log_downloaded_prefix @ ?src), EditText msg_converting None,
       ConvertSync ?src (source_format (kind_of upd)) ?wav,
       Log INFO (log_converted_prefix @ ?wav), Remove ?src]"
  from e1 have "trace w' = trace w @ (?prefix @ evs)"
    by (simp add: converted_world_def)
  then have "events_since w w' = ?prefix @ evs"
    by (rule events_since_append)
  then have "final_reports (events_since w w') = final_reports evs"
    by (simp only: final_reports_prefix)
  also from final_reports_via_status [OF e2]
  have "final_reports evs = [final_edit (Some t)]"
    by (simp add: final_reports_def final_report_facts del: is_final_report.simps(1))
  also from ne have "final_edit (Some t) = EditText ([CHR 0x0A, CHR 0x0A] @ t) (Some ''Markdown'')"
    by (simp add: final_edit_def truthy_def)
  finally show ?thesis using hm rr by simp
qed

theorem final_report_is_transcript_after_newlines_witness:
  "accepted voice_request \<and> stages_succeed all_succeed
   \<and> recognize_res all_succeed = Inr ''hello world'' \<and> ''hello world'' \<noteq> []
   \<and> final_reports (events_since empty_storage
        (snd (handle_media all_succeed voice_request empty_storage)))
       = [EditText ([CHR 0x0A, CHR 0x0A] @ ''hello world'') (Some ''Markdown'')]"
proof -
  have h1: "accepted voice_request"
    by (simp add: accepted_def voice_request_def)
  have h2: "stages_succeed all_succeed"
    by (simp add: stages_succeed_def all_succeed_def)
  have h3: "recognize_res all_succeed = Inr ''hello world''"
    by (simp add: all_succeed_def)
  have h4: "''hello world'' \<noteq> []" by simp
  show ?thesis
    using h1 h2 h3 h4
      final_report_is_transcript_after_newlines [OF h1 h2 h3 h4, where w = empty_storage]
    by simp
qed

subsection \<open>Storage after the handler\<close>

lemma failure_path_files:
  assumes acc: "accepted upd" and rp: "reply_text_res sc = None"
    and tb: "try_body sc (kind_of upd) (effective_user_id upd) (effective_chat_id upd)
           \<lparr>temp_file_path = None, original_media_path = None\<rparr>
           (emit (ReplyText msg_ack) w) = (Some e, fr1, w2)"
    and rs: "remove_source_res sc = None"
    and fr: "original_media_path fr1 \<noteq> Some []"
  shows "files (snd (handle_media sc upd w)) =
           (case original_media_path fr1 of None \<Rightarrow> files w2 | Some p \<Rightarrow> files w2 - {p})"
proof -
  obtain pend w3 where ec: "except_clause sc (Some e) w2 = (pend, w3)"
    by (cases "except_clause sc (Some e) w2")
  obtain fin w4 where fc: "finally_clause sc fr1 w3 = (fin, w4)"
    by (cases "finally_clause sc fr1 w3")
  from except_clause_files [of sc "Some e" w2] ec have f3: "files w3 = files w2" by simp
  from except_clause_Some [of sc e w2] ec have pend: "pend \<noteq> Continue" by simp
  from finally_clause_files [OF rs fr, of w3] fc f3
  have fin: "fin = None"
    and f4: "files w4 =
      (case original_media_path fr1 of None \<Rightarrow> files w2 | Some p \<Rightarrow> files w2 - {p})"
    by (simp_all split: option.splits)
  from handle_media_accepted [OF acc rp tb ec fc] fin pend
  have "snd (handle_media sc upd w) = w4"
    by (cases pend) simp_all
  with f4 show ?thesis by simp
qed

text \<open>
  Claim C1 as stated fails. The converted file stays on the storage when the edit of
  line 152 raises (the recogniser stage, which removes it, is never called), when its
  removal raises the \<^verbatim>\<open>OSError\<close> that line 76 catches, and when a conversion that raises
  has already written it. The source file stays when its removal at line 149 raises.
\<close>

theorem artifact_remains_counterexample:
  "wav_path Voice 42 1700000000
     \<in> files (snd (handle_media (all_succeed\<lparr>edit_recognizing_res := Some edit_refused\<rparr>)
                     voice_request empty_storage))
   \<and> wav_path Voice 42 1700000000
     \<in> files (snd (handle_media (all_succeed\<lparr>remove_wav_res := Some permission_denied\<rparr>)
                     voice_request empty_storage))
   \<and> wav_path Voice 42 1700000000
     \<in> files (snd (handle_media
                     (all_succeed\<lparr>convert_res := Some disk_full, convert_leaves_file := True\<rparr>)
                     voice_request empty_storage))
   \<and> original_path Voice 42 1700000000
     \<in> files (snd (handle_media (all_succeed\<lparr>remove_source_res := Some permission_denied\<rparr>)
                     voice_request empty_storage))"
  by (simp add: run_defs request_defs disk_full_def wav_path_not_original_path
      original_path_not_Nil)

text \<open>
  Claim C1, amended. Take an accepted request whose two storage keys are free when it
  arrives. If the removal of the source file and the removal of the converted file
  succeed, the edit of line 152 succeeds, and a conversion that raises leaves no output
  file, then after the handler neither the source file nor the converted file is on the
  storage, whatever else succeeds or fails, a failed download that left a partial file
  included.
\<close>

theorem no_artifact_remains:
  assumes acc: "accepted upd"
    and fresh_src: "original_path (kind_of upd) (effective_user_id upd) (time_now sc) \<notin> files w"
    and fresh_wav: "wav_path (kind_of upd) (effective_user_id upd) (time_now sc) \<notin> files w"
    and conv: "convert_res sc \<noteq> None \<longrightarrow> \<not> convert_leaves_file sc"
    and rs: "remove_source_res sc = None"
    and er: "edit_recognizing_res sc = None"
    and rw: "remove_wav_res sc = None"
  shows "original_path (kind_of upd) (effective_user_id upd) (time_now sc)
           \<notin> files (snd (handle_media sc upd w))
       \<and> wav_path (kind_of upd) (effective_user_id upd) (time_now sc)
           \<notin> files (snd (handle_media sc upd w))"
proof (cases "reply_text_res sc")
  case (Some e)
  from handle_media_reply_failed [OF acc Some, of w] fresh_src fresh_wav
  show ?thesis by (simp add: world_simps)
next
  case rp: None
  let ?fr0 = "\<lparr>temp_file_path = None, original_media_path = None\<rparr>"
  let ?w1 = "emit (ReplyText msg_ack) w"
  let ?k = "kind_of upd" and ?u = "effective_user_id upd" and ?c = "effective_chat_id upd"
  let ?src = "original_path ?k ?u (time_now sc)" and ?wav = "wav_path ?k ?u (time_now sc)"
  have ne: "?src \<noteq> ?wav" by (rule original_path_not_wav_path)
  have f1: "files ?w1 = files w" by (simp add: world_simps)
  obtain r fr1 w2 where tb: "try_body sc ?k ?u ?c ?fr0 ?w1 = (r, fr1, w2)"
    by (cases "try_body sc ?k ?u ?c ?fr0 ?w1")
  have failed: ?thesis
    if r: "r = Some e" and fr: "fr1 = ?fr0 \<and> files w2 = files w
        \<or> original_media_path fr1 = Some ?src
          \<and> (files w2 = files w \<or> files w2 = insert ?src (files w))" for e
  proof -
    from fr have "original_media_path fr1 \<noteq> Some []"
      by (auto simp: original_path_not_Nil)
    from failure_path_files [OF acc rp tb [unfolded r] rs this]
    have fl: "files (snd (handle_media sc upd w)) =
        (case original_media_path fr1 of None \<Rightarrow> files w2 | Some p \<Rightarrow> files w2 - {p})" .
    from fr show ?thesis
    proof (elim disjE conjE)
      assume "fr1 = ?fr0" and "files w2 = files w"
      with fl fresh_src fresh_wav show ?thesis by simp
    next
      assume "original_media_path fr1 = Some ?src" and "files w2 = files w"
      with fl fresh_src fresh_wav show ?thesis by simp
    next
      assume "original_media_path fr1 = Some ?src" and "files w2 = insert ?src (files w)"
      with fl fresh_src fresh_wav show ?thesis by simp
    qed
  qed
  from tb show ?thesis
  proof (cases rule: try_body_cases)
    case (setup_failed e)
    from setup_failed(1,2,3) f1 show ?thesis by (intro failed [of e]) simp_all
  next
    case (download_failed e)
    from download_failed(1,2,3) f1 show ?thesis by (intro failed [of e]) auto
  next
    case (converting_edit_failed e)
    from converting_edit_failed(1,2,3) f1 show ?thesis by (intro failed [of e]) simp_all
  next
    case (convert_failed e)
    from convert_failed(1,2,3,5) conv f1 show ?thesis by (intro failed [of e]) auto
  next
    case converted
    from converted(1) have ec: "except_clause sc r w2 = (Continue, w2)"
      by (simp add: except_clause_def)
    obtain fin w4 where fc: "finally_clause sc fr1 w2 = (fin, w4)"
      by (cases "finally_clause sc fr1 w2")
    from converted(2) have orig: "original_media_path fr1 = Some ?src"
      and temp: "temp_file_path fr1 = Some ?wav" by simp_all
    from orig have "original_media_path fr1 \<noteq> Some []"
      by (simp add: original_path_not_Nil)
    from finally_clause_files [OF rs this, of w2] fc orig converted(3) f1
    have fin: "fin = None" and f4: "files w4 = insert ?wav (insert ?src (files w)) - {?src}"
      by simp_all
    obtain res w' where rr: "recognize_and_report sc fr1 w4 = (res, w')"
      by (cases "recognize_and_report sc fr1 w4")
    from handle_media_accepted [OF acc rp tb ec fc] fin rr
    have hm: "snd (handle_media sc upd w) = w'" by simp
    from rr temp have "files w' = files w4 - {?wav}"
    proof (cases rule: recognize_and_report_cases)
      case (edit_failed e)
      with er show ?thesis by simp
    next
      case (not_caught e)
      from not_caught(5) rw show ?thesis by auto
    next
      case (reported t)
      from reported(4) rw show ?thesis by auto
    qed
    with f4 hm fresh_src show ?thesis by auto
  qed
qed

theorem no_artifact_remains_witness:
  "accepted video_note_request
   \<and> original_path (kind_of video_note_request) (effective_user_id video_note_request)
        (time_now (all_succeed\<lparr>download_res := Some disk_full, download_leaves_file := True\<rparr>))
       \<notin> files empty_storage
   \<and> wav_path (kind_of video_note_request) (effective_user_id video_note_request)
        (time_now (all_succeed\<lparr>download_res := Some disk_full, download_leaves_file := True\<rparr>))
       \<notin> files empty_storage
   \<and> original_path VideoNote 42 1700000000
       \<notin> files (snd (handle_media
            (all_succeed\<lparr>download_res := Some disk_full, download_leaves_file := True\<rparr>)
            video_note_request empty_storage))
   \<and> wav_path VideoNote 42 1700000000
       \<notin> files (snd (handle_media
            (all_succeed\<lparr>download_res := Some disk_full, download_leaves_file := True\<rparr>)
            video_note_request empty_storage))"
proof -
  let ?sc = "all_succeed\<lparr>download_res := Some disk_full, download_leaves_file := True\<rparr>"
  have h1: "accepted video_note_request"
    by (simp add: accepted_def video_note_request_def)
  have h2: "original_path (kind_of video_note_request) (effective_user_id video_note_request)
      (time_now ?sc) \<notin> files empty_storage"
    and h3: "wav_path (kind_of video_note_request) (effective_user_id video_note_request)
      (time_now ?sc) \<notin> files empty_storage"
    by (simp_all add: empty_storage_def)
  have h4: "convert_res ?sc \<noteq> None \<longrightarrow> \<not> convert_leaves_file ?sc"
    and h5: "remove_source_res ?sc = None" and h6: "edit_recognizing_res ?sc = None"
    and h7: "remove_wav_res ?sc = None"
    by (simp_all add: all_succeed_def)
  have k: "kind_of video_note_request = VideoNote" "effective_user_id video_note_request = 42"
    "time_now ?sc = 1700000000"
    by (simp_all add: kind_of_def video_note_request_def all_succeed_def)
  show ?thesis
    using h1 h2 h3 no_artifact_remains [OF h1 h2 h3 h4 h5 h6 h7]
    by (simp only: k) simp
qed

subsection \<open>Events that are not accepted\<close>

text \<open>
  Claim C8. An event without a message, or whose message carries neither a voice nor a
  video note, makes the handler return at line 90 or line 100: nothing is added to the
  trace (no reply, no edit, no download, no path computed) and the storage is as before.
\<close>

theorem ineligible_event_has_no_effect:
  assumes "message upd = None
         \<or> (\<exists>m. message upd = Some m \<and> voice m = None \<and> video_note m = None)"
  shows "handle_media sc upd w = (Returned, w)"
  using assms by (auto simp: handle_media_def Let_def)

theorem ineligible_event_has_no_effect_witness:
  "(message no_message = None
      \<or> (\<exists>m. message no_message = Some m \<and> voice m = None \<and> video_note m = None))
   \<and> handle_media all_succeed no_message empty_storage = (Returned, empty_storage)
   \<and> (message text_request = None
      \<or> (\<exists>m. message text_request = Some m \<and> voice m = None \<and> video_note m = None))
   \<and> handle_media all_succeed text_request empty_storage = (Returned, empty_storage)"
proof -
  have h1: "message no_message = None
      \<or> (\<exists>m. message no_message = Some m \<and> voice m = None \<and> video_note m = None)"
    by (simp add: no_message_def)
  have h2: "message text_request = None
      \<or> (\<exists>m. message text_request = Some m \<and> voice m = None \<and> video_note m = None)"
    by (simp add: text_request_def)
  show ?thesis
    using h1 h2
      ineligible_event_has_no_effect [OF h1, where sc = all_succeed and w = empty_storage]
      ineligible_event_has_no_effect [OF h2, where sc = all_succeed and w = empty_storage]
    by simp
qed

end
